theory Spec2Isabelle
  imports Complex_Main
begin

section \<open>Engine arithmetic used by the portal scene capture\<close>

text \<open>
  The component \<open>UPortalSceneCapture\<close> (\<open>PortalSceneCapture.cpp\<close>) computes its
  render-target size with a handful of \<open>FMath\<close> helpers. They are written out here the
  way the engine defines them. C++ \<open>float\<close> values are modelled by \<open>real\<close>; every
  constant and threshold that the size computation compares against (300, 2000, 0.5,
  256, 1024, 32) is exactly representable, and each floating operation involved is
  monotone, so the thresholds and the ordering proved below are those of the code.
  \<open>int32\<close> is \<open>int\<close> and \<open>uint32\<close> is \<open>nat\<close>, with the conversions between them
  written out.
\<close>

text \<open>
  \<open>FMath::Clamp(X, Min, Max)\<close>: \<open>X < Min ? Min : X < Max ? X : Max\<close>. Later releases of
  the engine write it \<open>Max(Min(X, Max), Min)\<close>, which is the same value whenever
  \<open>Min \<le> Max\<close>; the two differ only when the bounds are crossed, and no statement below
  depends on that case.
\<close>

definition Clamp :: "'a::linorder \<Rightarrow> 'a \<Rightarrow> 'a \<Rightarrow> 'a" where
  "Clamp x lo hi = (if x < lo then lo else if x < hi then x else hi)"

text \<open>The cast \<open>(int32)\<close> of a float: truncation toward zero.\<close>

definition float_to_int32 :: "real \<Rightarrow> int" where
  "float_to_int32 x = (if 0 \<le> x then \<lfloor>x\<rfloor> else \<lceil>x\<rceil>)"

text \<open>
  \<open>FMath::Lerp<int32, float>(A, B, Alpha)\<close>: \<open>(int32)(A + Alpha * (B - A))\<close>, the
  sum and product taken in floating point.
\<close>

definition Lerp :: "int \<Rightarrow> int \<Rightarrow> real \<Rightarrow> int" where
  "Lerp A B Alpha = float_to_int32 (real_of_int A + Alpha * real_of_int (B - A))"

text \<open>Conversions between \<open>int32\<close> and \<open>uint32\<close> (two's complement, 32 bits).\<close>

definition to_uint32 :: "int \<Rightarrow> nat" where
  "to_uint32 i = nat (i mod 2 ^ 32)"

definition to_int32 :: "nat \<Rightarrow> int" where
  "to_int32 n = (if n mod 2 ^ 32 < 2 ^ 31 then int (n mod 2 ^ 32)
                 else int (n mod 2 ^ 32) - 2 ^ 32)"

text \<open>
  \<open>32 - CountLeadingZeros(n)\<close> for a 32-bit \<open>n\<close>: the number of binary digits of \<open>n\<close>.
\<close>

fun BitLength :: "nat \<Rightarrow> nat" where
  "BitLength n = (if n = 0 then 0 else Suc (BitLength (n div 2)))"

declare BitLength.simps [simp del]

text \<open>
  \<open>FMath::CeilLogTwo(Arg)\<close>: \<open>Arg = Arg ? Arg : 1; return 32 - CountLeadingZeros(Arg - 1)\<close>,
  and \<open>FMath::RoundUpToPowerOfTwo(Arg)\<close>: \<open>1 << CeilLogTwo(Arg)\<close> as a \<open>uint32\<close>.
\<close>

definition CeilLogTwo :: "nat \<Rightarrow> nat" where
  "CeilLogTwo n = BitLength ((if n = 0 then 1 else n) - 1)"

definition RoundUpToPowerOfTwo :: "nat \<Rightarrow> nat" where
  "RoundUpToPowerOfTwo n = (2 ^ CeilLogTwo n) mod 2 ^ 32"

section \<open>Adaptive resolution: \<open>CalculateRenderSize\<close>\<close>

definition NearDistance :: real where "NearDistance = 300"
definition FarDistance :: real where "FarDistance = 2000"
definition MaxTextureSize :: int where "MaxTextureSize = 1024"
definition MinTextureSize :: int where "MinTextureSize = 256"

text \<open>
  The second argument is the viewport size when \<open>GEngine && GEngine->GameViewport\<close>
  holds (width and height in pixels), and \<open>None\<close> otherwise.
\<close>

definition ScreenMin :: "nat \<times> nat \<Rightarrow> int" where
  "ScreenMin ViewportSize =
     to_int32 (RoundUpToPowerOfTwo (to_uint32 (int (min (fst ViewportSize) (snd ViewportSize)))))"

text \<open>The local \<open>Alpha\<close> of \<open>CalculateRenderSize\<close>.\<close>

definition Alpha :: "real \<Rightarrow> real" where
  "Alpha Distance = Clamp ((Distance - NearDistance) / (FarDistance - NearDistance)) 0 1"

definition CalculateRenderSize :: "real \<Rightarrow> (nat \<times> nat) option \<Rightarrow> int" where
  "CalculateRenderSize Distance Viewport =
     (let Size0 = Lerp MaxTextureSize MinTextureSize (Alpha Distance);
          Size = to_int32 (RoundUpToPowerOfTwo (to_uint32 Size0))
      in case Viewport of
           None \<Rightarrow> Size
         | Some ViewportSize \<Rightarrow> Clamp Size MinTextureSize (ScreenMin ViewportSize))"


section \<open>Data of the component\<close>

text \<open>
  Modelled from the spec: the enumeration \<open>ECameraType\<close>, declared in a header that is
  not part of the sources at hand; the spec gives the camera-type tag the two values
  Mirror and Portal.
\<close>

datatype ECameraType = Mirror | Portal

record FVector =
  X :: real
  Y :: real
  Z :: real

text \<open>\<open>-V\<close>, \<open>V * Scale\<close> (also written \<open>Scale * V\<close>) and \<open>V + W\<close> on \<open>FVector\<close>.\<close>

definition FVector_neg :: "FVector \<Rightarrow> FVector" where
  "FVector_neg v = \<lparr>X = - X v, Y = - Y v, Z = - Z v\<rparr>"

definition FVector_mul :: "FVector \<Rightarrow> real \<Rightarrow> FVector" where
  "FVector_mul v k = \<lparr>X = X v * k, Y = Y v * k, Z = Z v * k\<rparr>"

definition FVector_add :: "FVector \<Rightarrow> FVector \<Rightarrow> FVector" where
  "FVector_add v w = \<lparr>X = X v + X w, Y = Y v + Y w, Z = Z v + Z w\<rparr>"

record FRotator =
  Pitch :: real
  Yaw :: real
  Roll :: real

datatype FQuat = FQuat real real real real

record FTransform =
  Rotation :: FQuat
  Location :: FVector
  Scale3D :: FVector

type_synonym FMatrix = "real list"

text \<open>\<open>FMath::DegreesToRadians\<close>.\<close>

definition DegreesToRadians :: "real \<Rightarrow> real" where
  "DegreesToRadians d = d * (pi / 180)"

text \<open>
  A portal actor, as far as the component reads it: \<open>GetActorLocation()\<close>,
  \<open>GetActorForwardVector()\<close> and \<open>GetMiddlePoint()\<close>. Pointers to portals
  (\<open>APortal*\<close>) are addresses, \<open>None\<close> being the null pointer; the actors themselves
  live in the world.
\<close>

record APortal =
  ActorLocation :: FVector
  ActorForwardVector :: FVector
  MiddlePoint :: FVector

type_synonym portal_ptr = nat

text \<open>The actor returned by \<open>GetOwner()\<close>: a portal (\<open>IsA(APortal::StaticClass())\<close>) or not.\<close>

datatype AActor = PortalActor portal_ptr | OtherActor

datatype FLinearColor = Black | Blue

datatype ETextureRenderTargetFormat = RTF_RGBA16f

datatype TextureFilter = TF_Bilinear

text \<open>
  A render target object. \<open>Address\<close> is the identity of the object returned by
  \<open>NewObject\<close>; \<open>FName\<close> is its name, \<open>''None''\<close> being \<open>NAME_None\<close>. Of the
  descriptor, the format, the filter, the clear colour and the size are kept; gamma,
  addressing mode and mip settings are written by \<open>GenerateDefaultTexture\<close> only and
  read nowhere in the component.
\<close>

record UTextureRenderTarget2D =
  Address :: nat
  FName :: string
  RenderTargetFormat :: ETextureRenderTargetFormat
  Filter :: TextureFilter
  ClearColor :: FLinearColor
  SizeX :: int
  SizeY :: int

definition IsNone :: "string \<Rightarrow> bool" where
  "IsNone n = (n = ''None'')"

text \<open>What one call of \<open>CaptureScene()\<close> hands to the renderer.\<close>

record capture =
  CapturePose :: FTransform
  CaptureProjection :: FMatrix
  CaptureTarget :: "UTextureRenderTarget2D option"
  CaptureClipNormal :: FVector
  CaptureClipBase :: FVector

text \<open>
  The component. \<open>Owner\<close> is the actor \<open>GetOwner()\<close> returns, \<open>WorldTransform\<close> the
  transform written by \<open>SetWorldTransform\<close>, \<open>Captures\<close> the calls of
  \<open>CaptureScene()\<close> made so far, \<open>NextObject\<close> the address the next \<open>NewObject\<close>
  returns. The other fields are the members the source reads and writes.
\<close>

record UPortalSceneCapture =
  Owner :: AActor
  m_owner :: "portal_ptr option"
  m_type :: ECameraType
  m_linked_portal :: "portal_ptr option"
  m_exit_in_front :: bool
  m_weight :: real
  m_refractive_ind_1 :: real
  m_refractive_ind_2 :: real
  m_is_total_reflection :: bool
  m_render_target :: "UTextureRenderTarget2D option"
  TextureTarget :: "UTextureRenderTarget2D option"
  CachedRenderSize :: int
  LastDistanceToCamera :: real
  ClipPlaneNormal :: FVector
  ClipPlaneBase :: FVector
  CustomProjectionMatrix :: FMatrix
  WorldTransform :: FTransform
  Captures :: "capture list"
  NextObject :: nat

text \<open>
  What the component reads from the running game: the portal actors by address, the
  viewport size (\<open>None\<close> unless \<open>GEngine && GEngine->GameViewport\<close>), and the distance
  \<open>FVector::Dist(CameraManager->GetCameraLocation(), GetComponentLocation())\<close>. The
  world, its first player controller and the camera manager are taken to exist.
\<close>

record world =
  Actors :: "portal_ptr \<Rightarrow> APortal"
  GameViewport :: "(nat \<times> nat) option"
  CameraDistance :: real

text \<open>
  The operations the source calls and does not define: the accessors \<open>getType()\<close> and
  \<open>GetTrueType()\<close> of the component's header, the functions of \<open>PortalTools\<close>, and
  the engine's plane, quaternion and rotation-matrix primitives. They are parameters of
  the model; every theorem below holds for any choice of them.
  \<open>PlaneNormal A B C\<close> is \<open>FPlane(A, B, C).GetNormal()\<close>, \<open>Normalize\<close> the vector after
  \<open>FVector::Normalize()\<close>, \<open>QuatAxisAngle\<close> the constructor \<open>FQuat(Axis, AngleRad)\<close>,
  \<open>QuatRotator\<close> is \<open>FQuat::Rotator()\<close>, \<open>RotatorQuat\<close> the constructor
  \<open>FQuat(FRotator)\<close>, \<open>QuatMul\<close> the product of quaternions, and
  \<open>RotateAboutPoint R Origin P\<close> is
  \<open>FRotationAboutPointMatrix(R, Origin).TransformPosition(P)\<close>.
\<close>

record externals =
  getType :: "UPortalSceneCapture \<Rightarrow> ECameraType"
  GetTrueType :: "UPortalSceneCapture \<Rightarrow> ECameraType"
  ComputeIncidenceAngle :: "FVector \<Rightarrow> FVector \<Rightarrow> FVector \<Rightarrow> real"
  ComputeRefractionAngle :: "real \<Rightarrow> real \<Rightarrow> real \<Rightarrow> real"
  ComputeNewTransform :: "FTransform \<Rightarrow> portal_ptr \<Rightarrow> world \<Rightarrow> UPortalSceneCapture \<Rightarrow> FTransform"
  PlaneNormal :: "FVector \<Rightarrow> FVector \<Rightarrow> FVector \<Rightarrow> FVector"
  Normalize :: "FVector \<Rightarrow> FVector"
  QuatAxisAngle :: "FVector \<Rightarrow> real \<Rightarrow> FQuat"
  QuatRotator :: "FQuat \<Rightarrow> FRotator"
  RotatorQuat :: "FRotator \<Rightarrow> FQuat"
  QuatMul :: "FQuat \<Rightarrow> FQuat \<Rightarrow> FQuat"
  RotateAboutPoint :: "FRotator \<Rightarrow> FVector \<Rightarrow> FVector \<Rightarrow> FVector"


section \<open>Operations of the component\<close>

text \<open>\<open>NewObject<UTextureRenderTarget2D>\<close>: a fresh object at the next free address.\<close>

definition NewObject :: "UPortalSceneCapture \<Rightarrow> string \<Rightarrow> UTextureRenderTarget2D" where
  "NewObject s name =
     \<lparr>Address = NextObject s, FName = name, RenderTargetFormat = RTF_RGBA16f,
      Filter = TF_Bilinear, ClearColor = Black, SizeX = 0, SizeY = 0\<rparr>"

definition GenerateDefaultTexture :: "world \<Rightarrow> UPortalSceneCapture \<Rightarrow> UPortalSceneCapture" where
  "GenerateDefaultTexture w s =
     (let Distance0 = LastDistanceToCamera s;
          Distance = (if Distance0 = 0 then CameraDistance w else Distance0);
          CurrentSize = CalculateRenderSize Distance (GameViewport w);
          target = (NewObject s ''Default texture'')
                     \<lparr>RenderTargetFormat := RTF_RGBA16f, Filter := TF_Bilinear,
                      SizeX := CurrentSize, SizeY := CurrentSize, ClearColor := Blue\<rparr>
      in s\<lparr>CachedRenderSize := CurrentSize, m_render_target := Some target,
            NextObject := Suc (NextObject s)\<rparr>)"

definition SetOwnerIfAvailable :: "UPortalSceneCapture \<Rightarrow> bool \<times> UPortalSceneCapture" where
  "SetOwnerIfAvailable s =
     (case Owner s of
        PortalActor p \<Rightarrow> (True, s\<lparr>m_owner := Some p\<rparr>)
      | OtherActor \<Rightarrow> (False, s))"

text \<open>\<open>m_owner || SetOwnerIfAvailable()\<close>: the right operand runs only when \<open>m_owner\<close> is null.\<close>

definition IsOwnerValid :: "UPortalSceneCapture \<Rightarrow> bool \<times> UPortalSceneCapture" where
  "IsOwnerValid s = (if m_owner s \<noteq> None then (True, s) else SetOwnerIfAvailable s)"

definition Init ::
  "ECameraType \<Rightarrow> portal_ptr option \<Rightarrow> bool \<Rightarrow> real \<Rightarrow> UPortalSceneCapture \<Rightarrow> UPortalSceneCapture" where
  "Init type linked_portal exit_in_front weight s =
     s\<lparr>m_type := type, m_linked_portal := linked_portal,
       m_exit_in_front := exit_in_front, m_weight := weight\<rparr>"

text \<open>\<open>BeginPlay\<close>, after \<open>Super::BeginPlay()\<close>.\<close>

definition BeginPlay :: "world \<Rightarrow> UPortalSceneCapture \<Rightarrow> UPortalSceneCapture" where
  "BeginPlay w s =
     (let s1 = GenerateDefaultTexture w s;
          s2 = snd (SetOwnerIfAvailable s1);
          s3 = (if m_type s2 \<noteq> Portal then s2\<lparr>m_exit_in_front := False\<rparr> else s2);
          s4 = (if m_weight s3 < 0 then s3\<lparr>m_weight := 0\<rparr> else s3)
      in if m_linked_portal s4 = None then s4\<lparr>m_linked_portal := m_owner s4\<rparr> else s4)"

text \<open>
  \<open>UpdateRenderTarget\<close>. The sizes compared are 0 or results of
  \<open>CalculateRenderSize\<close>, which the casts to \<open>float\<close> represent exactly.
\<close>

definition UpdateRenderTarget :: "world \<Rightarrow> UPortalSceneCapture \<Rightarrow> UPortalSceneCapture" where
  "UpdateRenderTarget w s =
     (let Distance = CameraDistance w;
          DesiredSize = CalculateRenderSize Distance (GameViewport w);
          s1 = (if \<bar>real_of_int DesiredSize - real_of_int (CachedRenderSize s)\<bar> > 32
                then (let NewTarget = (NewObject s ''TextureRenderTarget2D'')
                                        \<lparr>RenderTargetFormat := RTF_RGBA16f, Filter := TF_Bilinear,
                                         ClearColor := Black,
                                         SizeX := DesiredSize, SizeY := DesiredSize\<rparr>
                      in s\<lparr>TextureTarget := Some NewTarget, CachedRenderSize := DesiredSize,
                            NextObject := Suc (NextObject s)\<rparr>)
                else s)
      in s1\<lparr>LastDistanceToCamera := Distance\<rparr>)"

text \<open>
  Lines 148 to 182 of \<open>UpdateTransformation_Implementation\<close>: the value of the local
  \<open>modified_wa_transfo\<close> when \<open>ComputeNewTransform\<close> is called, and the component with
  its total-reflection flag as those lines leave it. \<open>owner\<close> is the non-null \<open>m_owner\<close>.
\<close>

definition modified_wa_transfo ::
  "externals \<Rightarrow> world \<Rightarrow> portal_ptr \<Rightarrow> UPortalSceneCapture \<Rightarrow> FTransform
     \<Rightarrow> FTransform \<times> UPortalSceneCapture" where
  "modified_wa_transfo ext w owner s watched_actor_transfo =
     (if GetTrueType ext s \<noteq> Mirror \<and> m_refractive_ind_1 s \<noteq> m_refractive_ind_2 s then
        (let portal_mid = MiddlePoint (Actors w owner);
             portal_normal = ActorForwardVector (Actors w owner);
             wa_pos = Location watched_actor_transfo;
             incidence_angle = ComputeIncidenceAngle ext wa_pos portal_mid portal_normal;
             refraction_angle = ComputeRefractionAngle ext incidence_angle
                                  (m_refractive_ind_1 s) (m_refractive_ind_2 s)
         in if refraction_angle = - 1 then
              (watched_actor_transfo, s\<lparr>m_is_total_reflection := True\<rparr>)
            else
              (let incidence_plane_normal =
                     Normalize ext (PlaneNormal ext wa_pos portal_mid
                                      (FVector_add portal_mid portal_normal));
                   rotation = QuatRotator ext
                                (QuatAxisAngle ext incidence_plane_normal
                                   (DegreesToRadians (incidence_angle - refraction_angle)));
                   t1 = watched_actor_transfo
                          \<lparr>Location := RotateAboutPoint ext rotation portal_mid
                                         (Location watched_actor_transfo)\<rparr>;
                   rotation' = rotation\<lparr>Pitch := 0, Roll := 0\<rparr>;
                   t2 = t1\<lparr>Rotation := QuatMul ext (RotatorQuat ext rotation') (Rotation t1)\<rparr>
               in (t2, s\<lparr>m_is_total_reflection := False\<rparr>)))
      else (watched_actor_transfo, s))"

text \<open>
  \<open>UpdateTransformation_Implementation\<close>. After \<open>IsOwnerValid()\<close> has returned true,
  \<open>m_owner\<close> is not null (lemma \<open>IsOwnerValid_owner\<close>), so the branch for a null owner
  is never taken.
\<close>

definition UpdateTransformation ::
  "externals \<Rightarrow> world \<Rightarrow> FTransform \<Rightarrow> UPortalSceneCapture \<Rightarrow> UPortalSceneCapture" where
  "UpdateTransformation ext w watched_actor_transfo s =
     (case IsOwnerValid s of
        (False, s1) \<Rightarrow> s1
      | (True, s1) \<Rightarrow>
          (case m_owner s1 of
             None \<Rightarrow> s1
           | Some owner \<Rightarrow>
               (case modified_wa_transfo ext w owner s1 watched_actor_transfo of
                  (t, s2) \<Rightarrow> s2\<lparr>WorldTransform := ComputeNewTransform ext t owner w s2\<rparr>)))"

text \<open>
  \<open>UpdateNearClipPlane_Implementation\<close>. Dereferencing a null \<open>target_portal\<close> ends the
  program: the result is \<open>None\<close>.
\<close>

definition UpdateNearClipPlane ::
  "externals \<Rightarrow> world \<Rightarrow> UPortalSceneCapture \<Rightarrow> UPortalSceneCapture option" where
  "UpdateNearClipPlane ext w s =
     (case IsOwnerValid s of
        (False, s1) \<Rightarrow> Some s1
      | (True, s1) \<Rightarrow>
          (let is_mirror = (getType ext s1 = Mirror);
               target_portal = (if getType ext s1 = Portal then m_linked_portal s1 else m_owner s1)
           in case target_portal of
                None \<Rightarrow> None
              | Some target \<Rightarrow>
                  (let normal = FVector_mul (FVector_neg (ActorForwardVector (Actors w target)))
                                  (if is_mirror \<or> m_exit_in_front s1 then - 1 else 1)
                   in Some (s1\<lparr>ClipPlaneNormal := normal,
                                 ClipPlaneBase := FVector_add (ActorLocation (Actors w target))
                                                    (FVector_mul normal 0.3)\<rparr>))))"

definition CaptureScene :: "UPortalSceneCapture \<Rightarrow> UPortalSceneCapture" where
  "CaptureScene s =
     s\<lparr>Captures := Captures s @
          [\<lparr>CapturePose = WorldTransform s, CaptureProjection = CustomProjectionMatrix s,
            CaptureTarget = TextureTarget s, CaptureClipNormal = ClipPlaneNormal s,
            CaptureClipBase = ClipPlaneBase s\<rparr>]\<rparr>"

text \<open>\<open>Update\<close>, the per-frame entry point.\<close>

definition Update ::
  "externals \<Rightarrow> world \<Rightarrow> FTransform \<Rightarrow> FMatrix \<Rightarrow> UPortalSceneCapture
     \<Rightarrow> UPortalSceneCapture option" where
  "Update ext w watched_actor_transfo projection_matrix s =
     (let s0 = (if (case m_render_target s of None \<Rightarrow> True | Some rt \<Rightarrow> IsNone (FName rt))
                then GenerateDefaultTexture w s else s)
      in case IsOwnerValid s0 of
           (False, s1) \<Rightarrow> Some s1
         | (True, s1) \<Rightarrow>
             (case (if m_linked_portal s1 \<noteq> None
                    then UpdateNearClipPlane ext w
                           (UpdateTransformation ext w watched_actor_transfo s1)
                    else Some s1) of
                None \<Rightarrow> None
              | Some s2 \<Rightarrow>
                  Some (CaptureScene (s2\<lparr>TextureTarget := m_render_target s2,
                                          CustomProjectionMatrix := projection_matrix\<rparr>))))"


section \<open>Sequences of calls\<close>

text \<open>
  What the game does to the component after activation, one call at a time: the
  per-frame \<open>Update\<close> and \<open>UpdateRenderTarget\<close>, and \<open>Init\<close>, which is public and may be
  called again at any time. A run stops with \<open>None\<close> when a call dereferences a null
  pointer.
\<close>

datatype frame_call =
    CallUpdate world FTransform FMatrix
  | CallUpdateRenderTarget world
  | CallInit ECameraType "portal_ptr option" bool real

fun is_Init :: "frame_call \<Rightarrow> bool" where
  "is_Init (CallInit type linked_portal exit_in_front weight) = True"
| "is_Init (CallUpdate w watched_actor_transfo projection_matrix) = False"
| "is_Init (CallUpdateRenderTarget w) = False"

text \<open>A run in which \<open>Init\<close> is not called.\<close>

fun frames_only :: "frame_call list \<Rightarrow> bool" where
  "frames_only [] = True"
| "frames_only (c # cs) = (\<not> is_Init c \<and> frames_only cs)"

fun call :: "externals \<Rightarrow> frame_call \<Rightarrow> UPortalSceneCapture \<Rightarrow> UPortalSceneCapture option" where
  "call ext (CallUpdate w watched_actor_transfo projection_matrix) s =
     Update ext w watched_actor_transfo projection_matrix s"
| "call ext (CallUpdateRenderTarget w) s = Some (UpdateRenderTarget w s)"
| "call ext (CallInit type linked_portal exit_in_front weight) s =
     Some (Init type linked_portal exit_in_front weight s)"

fun calls :: "externals \<Rightarrow> frame_call list \<Rightarrow> UPortalSceneCapture \<Rightarrow> UPortalSceneCapture option" where
  "calls ext [] s = Some s"
| "calls ext (c # cs) s = (case call ext c s of None \<Rightarrow> None | Some s' \<Rightarrow> calls ext cs s')"

section \<open>Sample inputs\<close>

text \<open>
  Concrete values on which the model is run below. The theorems are stated for every
  choice of the external operations; \<open>sample_externals\<close> is one such choice, fixed so
  that the model can be evaluated.
\<close>

text \<open>
  Modelled from the spec: \<open>getType\<close> and \<open>GetTrueType\<close> (the header is not part of the
  sources at hand; a total-reflection frame makes the portal behave as a mirror, the
  true type is the configured one), and \<open>ComputeRefractionAngle\<close> of \<open>PortalTools\<close>
  (\<open>n1 sin \<theta>1 = n2 sin \<theta>2\<close>, total reflection when the implied \<open>sin \<theta>2\<close> exceeds 1,
  which the source tests as the value \<open>-1\<close>). The sample watcher is at grazing
  incidence (90 degrees); the sample rotation primitives are those of the identity
  rotation, and \<open>ComputeNewTransform\<close> returns the pose it is given.
\<close>

definition sample_externals :: externals where
  "sample_externals =
     \<lparr>getType = (\<lambda>s. if m_is_total_reflection s then Mirror else m_type s),
      GetTrueType = m_type,
      ComputeIncidenceAngle = (\<lambda>point mid normal. 90),
      ComputeRefractionAngle = (\<lambda>incidence n1 n2.
         if n1 * sin (DegreesToRadians incidence) > n2 then - 1
         else arcsin (n1 * sin (DegreesToRadians incidence) / n2) * (180 / pi)),
      ComputeNewTransform = (\<lambda>t owner w s. t),
      PlaneNormal = (\<lambda>a b c. \<lparr>X = 0, Y = 0, Z = 1\<rparr>),
      Normalize = (\<lambda>v. v),
      QuatAxisAngle = (\<lambda>axis angle. FQuat 0 0 0 1),
      QuatRotator = (\<lambda>q. \<lparr>Pitch = 0, Yaw = 0, Roll = 0\<rparr>),
      RotatorQuat = (\<lambda>r. FQuat 0 0 0 1),
      QuatMul = (\<lambda>a b. b),
      RotateAboutPoint = (\<lambda>r origin p. p)\<rparr>"

definition origin :: FVector where
  "origin = \<lparr>X = 0, Y = 0, Z = 0\<rparr>"

definition forward :: FVector where
  "forward = \<lparr>X = 1, Y = 0, Z = 0\<rparr>"

definition sample_world :: world where
  "sample_world =
     \<lparr>Actors = (\<lambda>p. \<lparr>ActorLocation = origin, ActorForwardVector = forward, MiddlePoint = origin\<rparr>),
      GameViewport = None, CameraDistance = 300\<rparr>"

definition sample_pose :: FTransform where
  "sample_pose = \<lparr>Rotation = FQuat 0 0 0 1, Location = \<lparr>X = 0, Y = 100, Z = 0\<rparr>,
                  Scale3D = \<lparr>X = 1, Y = 1, Z = 1\<rparr>\<rparr>"

text \<open>
  A component as the constructor leaves it (\<open>CachedRenderSize = 0\<close>,
  \<open>LastDistanceToCamera = 0\<close>, null pointers), owned by the portal at address 1, with
  refractive indices 2 and 1.
\<close>

definition sample_capture :: UPortalSceneCapture where
  "sample_capture =
     \<lparr>Owner = PortalActor 1, m_owner = None, m_type = Portal, m_linked_portal = None,
      m_exit_in_front = False, m_weight = 1, m_refractive_ind_1 = 2, m_refractive_ind_2 = 1,
      m_is_total_reflection = False, m_render_target = None, TextureTarget = None,
      CachedRenderSize = 0, LastDistanceToCamera = 0,
      ClipPlaneNormal = origin, ClipPlaneBase = origin, CustomProjectionMatrix = [],
      WorldTransform = \<lparr>Rotation = FQuat 0 0 0 1, Location = origin, Scale3D = origin\<rparr>,
      Captures = [], NextObject = 0\<rparr>"


text \<open>
  The sample component after activation and one call of \<open>UpdateTransformation\<close>: with
  indices 2 and 1 at grazing incidence, that call finds total reflection.
\<close>

definition reflecting_capture :: UPortalSceneCapture where
  "reflecting_capture =
     UpdateTransformation sample_externals sample_world sample_pose
       (BeginPlay sample_world sample_capture)"

section \<open>Rounding up to a power of two\<close>

lemma BitLength_eq: "2 ^ k \<le> n \<Longrightarrow> n < 2 ^ Suc k \<Longrightarrow> BitLength n = Suc k"
proof (induction k arbitrary: n)
  case 0
  then have "n = 1" by simp
  then show ?case by (simp add: BitLength.simps)
next
  case (Suc k)
  have "2 ^ k \<le> n div 2" using Suc.prems by simp
  moreover have "n div 2 < 2 ^ Suc k" using Suc.prems by simp
  ultimately have "BitLength (n div 2) = Suc k" by (rule Suc.IH)
  moreover have "n \<noteq> 0" using Suc.prems by auto
  ultimately show ?case by (subst BitLength.simps) simp
qed

lemma RoundUp_between:
  assumes "2 ^ k < n" "n \<le> 2 ^ Suc k" "Suc k < 32"
  shows "RoundUpToPowerOfTwo n = 2 ^ Suc k"
proof -
  have "2 ^ k \<le> n - 1" "n - 1 < 2 ^ Suc k" "n \<noteq> 0" using assms by auto
  then have "CeilLogTwo n = Suc k" by (simp add: CeilLogTwo_def BitLength_eq)
  moreover have "(2::nat) ^ Suc k < 2 ^ 32"
    using assms(3) by (simp only: power_strict_increasing_iff)
  ultimately show ?thesis by (simp add: RoundUpToPowerOfTwo_def)
qed

lemma RoundUp_256: "RoundUpToPowerOfTwo 256 = 256"
  using RoundUp_between [of 7 256] by simp

lemma RoundUp_512: "256 < n \<Longrightarrow> n \<le> 512 \<Longrightarrow> RoundUpToPowerOfTwo n = 512"
  using RoundUp_between [of 8 n] by simp

lemma RoundUp_1024: "512 < n \<Longrightarrow> n \<le> 1024 \<Longrightarrow> RoundUpToPowerOfTwo n = 1024"
  using RoundUp_between [of 9 n] by simp

lemma rounded_size_cases:
  assumes "256 \<le> n" "n \<le> 1024"
  shows "to_int32 (RoundUpToPowerOfTwo (to_uint32 n)) =
           (if n \<le> 256 then 256 else if n \<le> 512 then 512 else 1024)"
proof -
  have u: "to_uint32 n = nat n" using assms by (simp add: to_uint32_def)
  show ?thesis
  proof (cases "n \<le> 256")
    case True
    then have "nat n = 256" using assms by simp
    then show ?thesis using True by (simp add: u RoundUp_256 to_int32_def)
  next
    case False
    show ?thesis
    proof (cases "n \<le> 512")
      case True
      then have "RoundUpToPowerOfTwo (nat n) = 512" using False by (intro RoundUp_512) auto
      then show ?thesis using True False by (simp add: u to_int32_def)
    next
      case beyond: False
      then have "RoundUpToPowerOfTwo (nat n) = 1024" using assms by (intro RoundUp_1024) auto
      then show ?thesis using beyond False by (simp add: u to_int32_def)
    qed
  qed
qed

section \<open>The size without a viewport\<close>

lemma Clamp_unit: "0 \<le> Clamp x 0 (1::real) \<and> Clamp x 0 (1::real) \<le> 1"
  by (simp add: Clamp_def)

lemma Clamp_mono: "x \<le> y \<Longrightarrow> lo \<le> hi \<Longrightarrow> Clamp x lo hi \<le> Clamp y lo hi"
  by (auto simp: Clamp_def)

lemma Lerp_sizes:
  assumes "0 \<le> a" "a \<le> 1"
  shows "Lerp MaxTextureSize MinTextureSize a = \<lfloor>1024 - 768 * a\<rfloor>"
    and "256 \<le> Lerp MaxTextureSize MinTextureSize a"
    and "Lerp MaxTextureSize MinTextureSize a \<le> 1024"
proof -
  have "0 \<le> 1024 - 768 * a" using assms by simp
  then show e: "Lerp MaxTextureSize MinTextureSize a = \<lfloor>1024 - 768 * a\<rfloor>"
    by (simp add: Lerp_def MaxTextureSize_def MinTextureSize_def float_to_int32_def algebra_simps)
  have "256 \<le> 1024 - 768 * a" using assms by simp
  then show "256 \<le> Lerp MaxTextureSize MinTextureSize a" unfolding e by (simp add: le_floor_iff)
  have "1024 - 768 * a \<le> 1024" using assms by simp
  then show "Lerp MaxTextureSize MinTextureSize a \<le> 1024" unfolding e by (simp add: floor_le_iff)
qed

lemma CalculateRenderSize_unclamped:
  "CalculateRenderSize d None =
     (if Lerp MaxTextureSize MinTextureSize (Alpha d) \<le> 256 then 256
      else if Lerp MaxTextureSize MinTextureSize (Alpha d) \<le> 512 then 512 else 1024)"
proof -
  have "0 \<le> Alpha d" "Alpha d \<le> 1" using Clamp_unit by (simp_all add: Alpha_def)
  then have "256 \<le> Lerp MaxTextureSize MinTextureSize (Alpha d)"
    "Lerp MaxTextureSize MinTextureSize (Alpha d) \<le> 1024"
    by (rule Lerp_sizes)+
  then have "to_int32 (RoundUpToPowerOfTwo (to_uint32 (Lerp MaxTextureSize MinTextureSize (Alpha d)))) =
     (if Lerp MaxTextureSize MinTextureSize (Alpha d) \<le> 256 then 256
      else if Lerp MaxTextureSize MinTextureSize (Alpha d) \<le> 512 then 512 else 1024)"
    by (rule rounded_size_cases)
  then show ?thesis by (simp add: CalculateRenderSize_def)
qed

lemma Alpha_mono: "d \<le> d' \<Longrightarrow> Alpha d \<le> Alpha d'"
  unfolding Alpha_def
  by (rule Clamp_mono) (simp_all add: NearDistance_def FarDistance_def divide_right_mono)

lemma Lerp_antimono:
  assumes "d \<le> d'"
  shows "Lerp MaxTextureSize MinTextureSize (Alpha d') \<le> Lerp MaxTextureSize MinTextureSize (Alpha d)"
proof -
  have r: "0 \<le> Alpha d" "Alpha d \<le> 1" "0 \<le> Alpha d'" "Alpha d' \<le> 1"
    using Clamp_unit by (simp_all add: Alpha_def)
  have "1024 - 768 * Alpha d' \<le> 1024 - 768 * Alpha d" using Alpha_mono [OF assms] by simp
  then have "\<lfloor>1024 - 768 * Alpha d'\<rfloor> \<le> \<lfloor>1024 - 768 * Alpha d\<rfloor>" by (rule floor_mono)
  then show ?thesis using r by (simp add: Lerp_sizes(1))
qed

lemma CalculateRenderSize_antimono:
  "d \<le> d' \<Longrightarrow> CalculateRenderSize d' None \<le> CalculateRenderSize d None"
  using Lerp_antimono [of d d'] by (simp add: CalculateRenderSize_unclamped)

lemma CalculateRenderSize_near:
  assumes "d \<le> 300"
  shows "CalculateRenderSize d None = 1024"
proof -
  have "Alpha d = 0"
    using assms by (simp add: Alpha_def Clamp_def NearDistance_def FarDistance_def divide_less_0_iff)
  then have "Lerp MaxTextureSize MinTextureSize (Alpha d) = 1024" by (simp add: Lerp_sizes(1))
  then show ?thesis by (simp add: CalculateRenderSize_unclamped)
qed

lemma CalculateRenderSize_far:
  assumes "2000 \<le> d"
  shows "CalculateRenderSize d None = 256"
proof -
  have "Alpha d = 1" using assms by (simp add: Alpha_def Clamp_def NearDistance_def FarDistance_def)
  then have "Lerp MaxTextureSize MinTextureSize (Alpha d) = 256" by (simp add: Lerp_sizes(1))
  then show ?thesis by (simp add: CalculateRenderSize_unclamped)
qed

lemma CalculateRenderSize_pow2: "\<exists>k. CalculateRenderSize d None = 2 ^ k"
proof -
  have "(256::int) = 2 ^ 8" "(512::int) = 2 ^ 9" "(1024::int) = 2 ^ 10" by simp_all
  then show ?thesis unfolding CalculateRenderSize_unclamped by metis
qed

lemma CalculateRenderSize_1150: "CalculateRenderSize 1150 None = 1024"
proof -
  have a: "Alpha 1150 = 1 / 2"
    by (simp add: Alpha_def Clamp_def NearDistance_def FarDistance_def)
  have "Lerp MaxTextureSize MinTextureSize (1 / 2) = 640" by (simp add: Lerp_sizes(1))
  then show ?thesis by (simp add: CalculateRenderSize_unclamped a)
qed

text \<open>
  C4. With the viewport size unknown, \<open>CalculateRenderSize\<close> does not increase when the
  distance increases, is 1024 for every distance up to 300, is 256 for every distance
  from 2000 on, is always a power of two, and is 1024 at distance 1150 (where \<open>Alpha\<close> is
  one half and the interpolated size 640).
\<close>

theorem CalculateRenderSize_without_viewport:
  "(\<forall>d d'. d \<le> d' \<longrightarrow> CalculateRenderSize d' None \<le> CalculateRenderSize d None)
   \<and> (\<forall>d. d \<le> 300 \<longrightarrow> CalculateRenderSize d None = 1024)
   \<and> (\<forall>d. 2000 \<le> d \<longrightarrow> CalculateRenderSize d None = 256)
   \<and> (\<forall>d. \<exists>k. CalculateRenderSize d None = 2 ^ k)
   \<and> Alpha 1150 = 1 / 2
   \<and> Lerp MaxTextureSize MinTextureSize (Alpha 1150) = 640
   \<and> CalculateRenderSize 1150 None = 1024"
proof -
  have a: "Alpha 1150 = 1 / 2"
    by (simp add: Alpha_def Clamp_def NearDistance_def FarDistance_def)
  have "Lerp MaxTextureSize MinTextureSize (1 / 2) = 640" by (simp add: Lerp_sizes(1))
  then have "Lerp MaxTextureSize MinTextureSize (Alpha 1150) = 640" by (simp only: a)
  then show ?thesis
    using a CalculateRenderSize_antimono CalculateRenderSize_near CalculateRenderSize_far
      CalculateRenderSize_pow2 CalculateRenderSize_1150 by blast
qed

theorem CalculateRenderSize_without_viewport_witness:
  "(300::real) \<le> 2000 \<and> CalculateRenderSize 2000 None \<le> CalculateRenderSize 300 None
   \<and> CalculateRenderSize 300 None = 1024 \<and> CalculateRenderSize 2000 None = 256"
  using CalculateRenderSize_without_viewport by simp


section \<open>The size with a viewport\<close>

lemma CalculateRenderSize_Some:
  "CalculateRenderSize d (Some v) = Clamp (CalculateRenderSize d None) MinTextureSize (ScreenMin v)"
  by (simp add: CalculateRenderSize_def)

lemma ScreenMin_pow2:
  assumes "256 \<le> ScreenMin v"
  shows "\<exists>k. ScreenMin v = 2 ^ k"
proof -
  define k where "k = CeilLogTwo (to_uint32 (int (min (fst v) (snd v))))"
  have S: "ScreenMin v = to_int32 (2 ^ k mod 2 ^ 32)"
    by (simp add: ScreenMin_def RoundUpToPowerOfTwo_def k_def)
  have "k < 31"
  proof (rule ccontr)
    assume "\<not> k < 31"
    then consider "k = 31" | "32 \<le> k" by linarith
    then show False
    proof cases
      case 1
      then show ?thesis using assms S by (simp add: to_int32_def)
    next
      case 2
      then have "(2::nat) ^ k mod 2 ^ 32 = 0" by (intro dvd_imp_mod_0 le_imp_power_dvd)
      then show ?thesis using assms S by (simp add: to_int32_def)
    qed
  qed
  then have "(2::nat) ^ k < 2 ^ 31" by (simp only: power_strict_increasing_iff)
  then have "ScreenMin v = 2 ^ k" unfolding S by (simp add: to_int32_def)
  then show ?thesis ..
qed

lemma ScreenMin_1920_1080: "ScreenMin (1920, 1080) = 2048"
  using RoundUp_between [of 10 1080] by (simp add: ScreenMin_def to_uint32_def to_int32_def)

lemma ScreenMin_1024_100: "ScreenMin (1024, 100) = 128"
  using RoundUp_between [of 6 100] by (simp add: ScreenMin_def to_uint32_def to_int32_def)

text \<open>
  C5, as the code has it. The bound of the clamp is \<open>ScreenMin\<close>: the smaller of the two
  viewport dimensions, rounded up to a power of two. For every distance and every
  viewport whose \<open>ScreenMin\<close> is at least 256, the result is the unclamped size cut down
  to \<open>ScreenMin\<close>; it is a power of two, lies in [256, 1024] and in [256, ScreenMin].
\<close>

theorem CalculateRenderSize_with_viewport:
  assumes "256 \<le> ScreenMin v"
  shows "CalculateRenderSize d (Some v) = min (CalculateRenderSize d None) (ScreenMin v)
         \<and> 256 \<le> CalculateRenderSize d (Some v)
         \<and> CalculateRenderSize d (Some v) \<le> 1024
         \<and> CalculateRenderSize d (Some v) \<le> ScreenMin v
         \<and> (\<exists>k. CalculateRenderSize d (Some v) = 2 ^ k)"
proof -
  have U: "CalculateRenderSize d None \<in> {256, 512, 1024}"
    by (simp add: CalculateRenderSize_unclamped)
  have M: "CalculateRenderSize d (Some v) = min (CalculateRenderSize d None) (ScreenMin v)"
    using U assms unfolding CalculateRenderSize_Some by (auto simp: Clamp_def MinTextureSize_def)
  have P: "\<exists>k. CalculateRenderSize d (Some v) = 2 ^ k"
    unfolding M using CalculateRenderSize_pow2 [of d] ScreenMin_pow2 [OF assms]
    by (auto simp: min_def)
  show ?thesis using M P U assms by auto
qed

text \<open>C5, the theorem at distance 1150 in a viewport of 1920 by 1080.\<close>

theorem CalculateRenderSize_with_viewport_witness:
  "256 \<le> ScreenMin (1920, 1080) \<and> CalculateRenderSize 1150 (Some (1920, 1080)) = 1024"
  using CalculateRenderSize_with_viewport [of "(1920, 1080)" 1150]
  by (simp add: ScreenMin_1920_1080 CalculateRenderSize_1150)

text \<open>
  C5 as stated fails in a viewport of 1024 by 100 at distance 0: the result is not the
  unclamped size clamped to the larger dimension rounded up to a power of two (1024), and
  it does not lie between \<open>MinTextureSize\<close> and the bound computed from the viewport
  (128, below \<open>MinTextureSize\<close>).
\<close>

theorem CalculateRenderSize_small_viewport:
  "CalculateRenderSize 0 (Some (1024, 100)) \<noteq>
     Clamp (CalculateRenderSize 0 None) MinTextureSize
       (to_int32 (RoundUpToPowerOfTwo (max 1024 100)))
   \<and> \<not> (MinTextureSize \<le> CalculateRenderSize 0 (Some (1024, 100))
        \<and> CalculateRenderSize 0 (Some (1024, 100)) \<le> ScreenMin (1024, 100))"
proof -
  have "CalculateRenderSize 0 (Some (1024, 100)) = 128"
    by (simp add: CalculateRenderSize_Some ScreenMin_1024_100 CalculateRenderSize_near
          Clamp_def MinTextureSize_def)
  moreover have "RoundUpToPowerOfTwo (max 1024 100) = 1024" using RoundUp_1024 [of 1024] by simp
  ultimately show ?thesis
    by (simp add: CalculateRenderSize_near Clamp_def MinTextureSize_def to_int32_def)
qed

section \<open>Hysteresis of the render target\<close>

text \<open>
  C6. Let the desired size be \<open>CalculateRenderSize\<close> of the current camera distance. If it
  differs from the cached size by at most 32, \<open>UpdateRenderTarget\<close> leaves the published
  target and the cached size as they are and allocates nothing. If it differs by more
  than 32, a newly allocated target of the desired size in both dimensions, with black
  clear colour, is published, the cached size becomes the desired size, and the
  published target is no longer the old one.
\<close>

theorem UpdateRenderTarget_hysteresis:
  "(\<bar>real_of_int (CalculateRenderSize (CameraDistance w) (GameViewport w))
       - real_of_int (CachedRenderSize s)\<bar> \<le> 32 \<longrightarrow>
      TextureTarget (UpdateRenderTarget w s) = TextureTarget s
      \<and> CachedRenderSize (UpdateRenderTarget w s) = CachedRenderSize s
      \<and> NextObject (UpdateRenderTarget w s) = NextObject s)
   \<and> (\<bar>real_of_int (CalculateRenderSize (CameraDistance w) (GameViewport w))
       - real_of_int (CachedRenderSize s)\<bar> > 32 \<longrightarrow>
      TextureTarget (UpdateRenderTarget w s) =
        Some \<lparr>Address = NextObject s, FName = ''TextureRenderTarget2D'',
              RenderTargetFormat = RTF_RGBA16f, Filter = TF_Bilinear, ClearColor = Black,
              SizeX = CalculateRenderSize (CameraDistance w) (GameViewport w),
              SizeY = CalculateRenderSize (CameraDistance w) (GameViewport w)\<rparr>
      \<and> CachedRenderSize (UpdateRenderTarget w s)
          = CalculateRenderSize (CameraDistance w) (GameViewport w)
      \<and> NextObject (UpdateRenderTarget w s) = Suc (NextObject s)
      \<and> ((\<forall>old. TextureTarget s = Some old \<longrightarrow> Address old < NextObject s) \<longrightarrow>
           TextureTarget (UpdateRenderTarget w s) \<noteq> TextureTarget s))"
proof -
  have fresh: "Some t \<noteq> TextureTarget s"
    if "\<forall>old. TextureTarget s = Some old \<longrightarrow> Address old < NextObject s"
      and "Address t = NextObject s" for t
  proof
    assume "Some t = TextureTarget s"
    then have "TextureTarget s = Some t" by simp
    then have "Address t < NextObject s" using that(1) by blast
    then show False using that(2) by simp
  qed
  show ?thesis
    by (simp add: UpdateRenderTarget_def NewObject_def Let_def fresh)
qed

text \<open>
  C6, the theorem on the sample component: the first call replaces the target (cached
  size 0, desired size 1024), the second call leaves it alone.
\<close>

theorem UpdateRenderTarget_hysteresis_witness:
  "\<bar>real_of_int (CalculateRenderSize (CameraDistance sample_world) (GameViewport sample_world))
      - real_of_int (CachedRenderSize sample_capture)\<bar> > 32
   \<and> CachedRenderSize (UpdateRenderTarget sample_world sample_capture) = 1024
   \<and> \<bar>real_of_int (CalculateRenderSize (CameraDistance sample_world) (GameViewport sample_world))
      - real_of_int (CachedRenderSize (UpdateRenderTarget sample_world sample_capture))\<bar> \<le> 32
   \<and> TextureTarget (UpdateRenderTarget sample_world (UpdateRenderTarget sample_world sample_capture))
       = TextureTarget (UpdateRenderTarget sample_world sample_capture)
   \<and> TextureTarget (UpdateRenderTarget sample_world sample_capture) \<noteq> TextureTarget sample_capture"
proof -
  have t: "TextureTarget sample_capture = None" by (simp add: sample_capture_def)
  have d: "CalculateRenderSize (CameraDistance sample_world) (GameViewport sample_world) = 1024"
    by (simp add: sample_world_def CalculateRenderSize_near)
  have c: "CachedRenderSize sample_capture = 0" by (simp add: sample_capture_def)
  show ?thesis
    using UpdateRenderTarget_hysteresis [of sample_world sample_capture]
      UpdateRenderTarget_hysteresis [of sample_world "UpdateRenderTarget sample_world sample_capture"]
    by (simp add: d c t)
qed


section \<open>Owner resolution, activation and configuration\<close>

lemma IsOwnerValid_owner: "IsOwnerValid s = (True, s1) \<Longrightarrow> m_owner s1 \<noteq> None"
  by (auto simp: IsOwnerValid_def SetOwnerIfAvailable_def split: if_splits AActor.splits)

lemma IsOwnerValid_owned: "m_owner s = Some owner \<Longrightarrow> IsOwnerValid s = (True, s)"
  by (simp add: IsOwnerValid_def)

lemma IsOwnerValid_cases:
  obtains (invalid) "IsOwnerValid s = (False, s)" "m_owner s = None" "Owner s = OtherActor"
  | (valid) owner where "IsOwnerValid s = (True, s\<lparr>m_owner := Some owner\<rparr>)"
proof (cases "m_owner s")
  case None
  show ?thesis
  proof (cases "Owner s")
    case (PortalActor p)
    then have "IsOwnerValid s = (True, s\<lparr>m_owner := Some p\<rparr>)"
      using None by (simp add: IsOwnerValid_def SetOwnerIfAvailable_def)
    then show ?thesis by (rule valid)
  next
    case OtherActor
    then have "IsOwnerValid s = (False, s)"
      using None by (simp add: IsOwnerValid_def SetOwnerIfAvailable_def)
    then show ?thesis using None OtherActor by (rule invalid)
  qed
next
  case (Some owner)
  then have "IsOwnerValid s = (True, s\<lparr>m_owner := Some owner\<rparr>)"
    by (simp add: IsOwnerValid_def)
  then show ?thesis by (rule valid)
qed

lemma snd_SetOwnerIfAvailable:
  "snd (SetOwnerIfAvailable s) =
     s\<lparr>m_owner := (case Owner s of PortalActor p \<Rightarrow> Some p | OtherActor \<Rightarrow> m_owner s)\<rparr>"
  by (cases "Owner s") (simp_all add: SetOwnerIfAvailable_def)

lemma GenerateDefaultTexture_fields:
  "Owner (GenerateDefaultTexture w s) = Owner s"
  "m_owner (GenerateDefaultTexture w s) = m_owner s"
  "m_type (GenerateDefaultTexture w s) = m_type s"
  "m_linked_portal (GenerateDefaultTexture w s) = m_linked_portal s"
  "m_exit_in_front (GenerateDefaultTexture w s) = m_exit_in_front s"
  "m_weight (GenerateDefaultTexture w s) = m_weight s"
  "m_refractive_ind_1 (GenerateDefaultTexture w s) = m_refractive_ind_1 s"
  "m_refractive_ind_2 (GenerateDefaultTexture w s) = m_refractive_ind_2 s"
  "m_is_total_reflection (GenerateDefaultTexture w s) = m_is_total_reflection s"
  "TextureTarget (GenerateDefaultTexture w s) = TextureTarget s"
  "ClipPlaneNormal (GenerateDefaultTexture w s) = ClipPlaneNormal s"
  "ClipPlaneBase (GenerateDefaultTexture w s) = ClipPlaneBase s"
  "CustomProjectionMatrix (GenerateDefaultTexture w s) = CustomProjectionMatrix s"
  "WorldTransform (GenerateDefaultTexture w s) = WorldTransform s"
  "Captures (GenerateDefaultTexture w s) = Captures s"
  by (simp_all add: GenerateDefaultTexture_def Let_def)

lemma BeginPlay_fields:
  "m_type (BeginPlay w s) = m_type s"
  "m_refractive_ind_1 (BeginPlay w s) = m_refractive_ind_1 s"
  "m_refractive_ind_2 (BeginPlay w s) = m_refractive_ind_2 s"
  "m_is_total_reflection (BeginPlay w s) = m_is_total_reflection s"
  "m_owner (BeginPlay w s) = (case Owner s of PortalActor p \<Rightarrow> Some p | OtherActor \<Rightarrow> m_owner s)"
  "m_exit_in_front (BeginPlay w s) = (m_type s = Portal \<and> m_exit_in_front s)"
  "m_weight (BeginPlay w s) = (if m_weight s < 0 then 0 else m_weight s)"
  by (simp_all add: BeginPlay_def Let_def snd_SetOwnerIfAvailable GenerateDefaultTexture_fields
        cong: AActor.case_cong)

lemma BeginPlay_linked_portal:
  "m_linked_portal (BeginPlay w s) =
     (if m_linked_portal s = None then m_owner (BeginPlay w s) else m_linked_portal s)"
  by (auto simp: BeginPlay_def Let_def snd_SetOwnerIfAvailable GenerateDefaultTexture_fields
        cong: AActor.case_cong)

lemma Init_fields:
  "m_type (Init type linked exit_in_front weight s) = type"
  "m_linked_portal (Init type linked exit_in_front weight s) = linked"
  "m_exit_in_front (Init type linked exit_in_front weight s) = exit_in_front"
  "m_weight (Init type linked exit_in_front weight s) = weight"
  "m_owner (Init type linked exit_in_front weight s) = m_owner s"
  "Owner (Init type linked exit_in_front weight s) = Owner s"
  "m_refractive_ind_1 (Init type linked exit_in_front weight s) = m_refractive_ind_1 s"
  "m_refractive_ind_2 (Init type linked exit_in_front weight s) = m_refractive_ind_2 s"
  "m_is_total_reflection (Init type linked exit_in_front weight s) = m_is_total_reflection s"
  by (simp_all add: Init_def)

text \<open>
  C9, as the code has it. \<open>Init\<close> stores the weight and the linked portal it is given.
  Activation (\<open>BeginPlay\<close>) then replaces a negative weight by 0 and leaves any other
  weight alone, and replaces a null linked portal by \<open>m_owner\<close>, which activation has
  set to the owning actor when that actor is a portal.
\<close>

theorem BeginPlay_normalises_Init:
  "(weight < 0 \<longrightarrow> m_weight (BeginPlay w (Init type linked exit_in_front weight s)) = 0)
   \<and> (0 \<le> weight \<longrightarrow> m_weight (BeginPlay w (Init type linked exit_in_front weight s)) = weight)
   \<and> (linked = None \<longrightarrow>
        m_linked_portal (BeginPlay w (Init type linked exit_in_front weight s))
          = m_owner (BeginPlay w (Init type linked exit_in_front weight s)))
   \<and> (linked \<noteq> None \<longrightarrow>
        m_linked_portal (BeginPlay w (Init type linked exit_in_front weight s)) = linked)
   \<and> m_owner (BeginPlay w (Init type linked exit_in_front weight s))
        = (case Owner s of PortalActor p \<Rightarrow> Some p | OtherActor \<Rightarrow> m_owner s)
   \<and> m_weight (Init type linked exit_in_front weight s) = weight
   \<and> m_linked_portal (Init type linked exit_in_front weight s) = linked"
  by (simp add: BeginPlay_fields BeginPlay_linked_portal Init_fields cong: AActor.case_cong)

text \<open>C9, the theorem for weight -1 and no linked portal on the sample component.\<close>

theorem BeginPlay_normalises_Init_witness:
  "(- 1 :: real) < 0
   \<and> m_weight (BeginPlay sample_world (Init Portal None True (- 1) sample_capture)) = 0
   \<and> m_linked_portal (BeginPlay sample_world (Init Portal None True (- 1) sample_capture)) = Some 1"
  using BeginPlay_normalises_Init [of "- 1" sample_world Portal None True sample_capture]
  by (simp add: sample_capture_def)

text \<open>
  C9 as stated fails for \<open>Init\<close>, the operation that takes the configuration: called with
  weight -1 and no linked portal, it stores -1 and a null linked portal.
\<close>

theorem Init_stores_weight:
  "m_weight (Init Portal None True (- 1) sample_capture) = - 1
   \<and> m_linked_portal (Init Portal None True (- 1) sample_capture) = None"
  by (simp add: Init_def)

section \<open>The clip plane\<close>


lemma FVector_flip: "FVector_mul (FVector_neg v) (- 1) = v"
  by (cases v) (simp add: FVector_neg_def FVector_mul_def)

lemma FVector_keep: "FVector_mul v 1 = v"
  by (cases v) (simp add: FVector_mul_def)

lemma UpdateNearClipPlane_owned:
  assumes "m_owner s = Some owner"
  shows "UpdateNearClipPlane ext w s =
     (case (if getType ext s = Portal then m_linked_portal s else m_owner s) of
        None \<Rightarrow> None
      | Some target \<Rightarrow>
          Some (s\<lparr>ClipPlaneNormal :=
                     FVector_mul (FVector_neg (ActorForwardVector (Actors w target)))
                       (if getType ext s = Mirror \<or> m_exit_in_front s then - 1 else 1),
                   ClipPlaneBase :=
                     FVector_add (ActorLocation (Actors w target))
                       (FVector_mul
                          (FVector_mul (FVector_neg (ActorForwardVector (Actors w target)))
                             (if getType ext s = Mirror \<or> m_exit_in_front s then - 1 else 1))
                          0.3)\<rparr>))"
  by (simp add: UpdateNearClipPlane_def IsOwnerValid_owned [OF assms] Let_def)

lemma sample_externals_fields:
  "GetTrueType sample_externals s = m_type s"
  "getType sample_externals s = (if m_is_total_reflection s then Mirror else m_type s)"
  "ComputeIncidenceAngle sample_externals a b c = 90"
  "ComputeNewTransform sample_externals t owner w s = t"
  by (simp_all add: sample_externals_def)

lemma sample_begun:
  "m_owner (BeginPlay sample_world sample_capture) = Some 1"
  "m_linked_portal (BeginPlay sample_world sample_capture) = Some 1"
  "m_type (BeginPlay sample_world sample_capture) = Portal"
  "m_refractive_ind_1 (BeginPlay sample_world sample_capture) = 2"
  "m_refractive_ind_2 (BeginPlay sample_world sample_capture) = 1"
  "m_is_total_reflection (BeginPlay sample_world sample_capture) = False"
  "m_exit_in_front (BeginPlay sample_world sample_capture) = False"
  by (simp_all add: BeginPlay_fields BeginPlay_linked_portal sample_capture_def)

text \<open>
  C7. When the owner is valid and the target portal is not null, \<open>UpdateNearClipPlane\<close>
  returns with: the target portal being \<open>m_linked_portal\<close> when \<open>getType()\<close> is Portal
  and \<open>m_owner\<close> otherwise; the normal being minus the target's forward vector, times
  -1 when \<open>getType()\<close> is Mirror or \<open>m_exit_in_front\<close> holds and times 1 otherwise; the
  base being the target's location plus 0.3 times the normal. So the normal is the
  forward vector itself in the first case and its negation in the second.
\<close>

theorem UpdateNearClipPlane_plane:
  assumes "IsOwnerValid s = (True, s1)"
    and "(if getType ext s1 = Portal then m_linked_portal s1 else m_owner s1) = Some target"
  shows "\<exists>s'. UpdateNearClipPlane ext w s = Some s'
     \<and> ClipPlaneNormal s' =
         FVector_mul (FVector_neg (ActorForwardVector (Actors w target)))
           (if getType ext s1 = Mirror \<or> m_exit_in_front s1 then - 1 else 1)
     \<and> ClipPlaneBase s' =
         FVector_add (ActorLocation (Actors w target)) (FVector_mul (ClipPlaneNormal s') 0.3)
     \<and> (getType ext s1 = Mirror \<or> m_exit_in_front s1 \<longrightarrow>
          ClipPlaneNormal s' = ActorForwardVector (Actors w target))
     \<and> (\<not> (getType ext s1 = Mirror \<or> m_exit_in_front s1) \<longrightarrow>
          ClipPlaneNormal s' = FVector_neg (ActorForwardVector (Actors w target)))"
  using assms
  by (simp add: UpdateNearClipPlane_def Let_def FVector_flip FVector_keep)


text \<open>
  C7, the theorem on the activated sample component (type Portal, linked to its owner,
  no exit in front): the normal is minus the forward vector, the base 0.3 behind the
  portal.
\<close>

theorem UpdateNearClipPlane_plane_witness:
  "IsOwnerValid (BeginPlay sample_world sample_capture) = (True, BeginPlay sample_world sample_capture)
   \<and> (if getType sample_externals (BeginPlay sample_world sample_capture) = Portal
       then m_linked_portal (BeginPlay sample_world sample_capture)
       else m_owner (BeginPlay sample_world sample_capture)) = Some 1
   \<and> map_option ClipPlaneNormal
        (UpdateNearClipPlane sample_externals sample_world (BeginPlay sample_world sample_capture))
       = Some \<lparr>X = - 1, Y = 0, Z = 0\<rparr>
   \<and> map_option ClipPlaneBase
        (UpdateNearClipPlane sample_externals sample_world (BeginPlay sample_world sample_capture))
       = Some \<lparr>X = - 0.3, Y = 0, Z = 0\<rparr>"
proof -
  have v: "IsOwnerValid (BeginPlay sample_world sample_capture)
           = (True, BeginPlay sample_world sample_capture)"
    by (rule IsOwnerValid_owned) (rule sample_begun(1))
  have t: "(if getType sample_externals (BeginPlay sample_world sample_capture) = Portal
       then m_linked_portal (BeginPlay sample_world sample_capture)
       else m_owner (BeginPlay sample_world sample_capture)) = Some 1"
    by (simp add: sample_begun)
  have g: "getType sample_externals (BeginPlay sample_world sample_capture) = Portal"
    by (simp add: sample_externals_fields sample_begun)
  have a: "ActorForwardVector (Actors sample_world q) = forward"
    "ActorLocation (Actors sample_world q) = origin" for q
    by (simp_all add: sample_world_def)
  show ?thesis
    using UpdateNearClipPlane_plane [OF v t, of sample_world] v t
    by (auto simp: g a sample_begun forward_def origin_def FVector_neg_def FVector_mul_def
          FVector_add_def)
qed

section \<open>Refraction of the watched pose\<close>

lemma FRotator_yaw_only:
  "(r::FRotator)\<lparr>Pitch := 0, Roll := 0\<rparr> = \<lparr>Pitch = 0, Yaw = Yaw r, Roll = 0\<rparr>"
  by (cases r) simp

lemma FTransform_moved:
  "(t::FTransform)\<lparr>Location := l, Rotation := q\<rparr> = \<lparr>Rotation = q, Location = l, Scale3D = Scale3D t\<rparr>"
  by (cases t) simp

lemma UpdateTransformation_owned:
  "m_owner s = Some owner \<Longrightarrow>
   UpdateTransformation ext w t s =
     (case modified_wa_transfo ext w owner s t of
        (t', s2) \<Rightarrow> s2\<lparr>WorldTransform := ComputeNewTransform ext t' owner w s2\<rparr>)"
  by (simp add: UpdateTransformation_def IsOwnerValid_def)

lemma modified_wa_transfo_plain:
  "GetTrueType ext s = Mirror \<or> m_refractive_ind_1 s = m_refractive_ind_2 s \<Longrightarrow>
   modified_wa_transfo ext w owner s t = (t, s)"
  by (auto simp: modified_wa_transfo_def)

lemma modified_wa_transfo_total_reflection:
  "GetTrueType ext s \<noteq> Mirror \<Longrightarrow> m_refractive_ind_1 s \<noteq> m_refractive_ind_2 s \<Longrightarrow>
   ComputeRefractionAngle ext
     (ComputeIncidenceAngle ext (Location t) (MiddlePoint (Actors w owner))
        (ActorForwardVector (Actors w owner)))
     (m_refractive_ind_1 s) (m_refractive_ind_2 s) = - 1 \<Longrightarrow>
   modified_wa_transfo ext w owner s t = (t, s\<lparr>m_is_total_reflection := True\<rparr>)"
  by (simp add: modified_wa_transfo_def Let_def)

lemma modified_wa_transfo_fields:
  "modified_wa_transfo ext w owner s t = (t', s') \<Longrightarrow>
   s' = s\<lparr>m_is_total_reflection := m_is_total_reflection s'\<rparr>"
  by (auto simp: modified_wa_transfo_def Let_def split: if_splits)

lemma UpdateTransformation_shape:
  assumes "m_owner s = Some owner"
  shows "\<exists>b T. UpdateTransformation ext w t s = s\<lparr>m_is_total_reflection := b, WorldTransform := T\<rparr>"
proof -
  obtain t' s2 where m: "modified_wa_transfo ext w owner s t = (t', s2)" by fastforce
  then have "s2 = s\<lparr>m_is_total_reflection := m_is_total_reflection s2\<rparr>"
    by (rule modified_wa_transfo_fields)
  then have "UpdateTransformation ext w t s =
      s\<lparr>m_is_total_reflection := m_is_total_reflection s2,
        WorldTransform := ComputeNewTransform ext t' owner w s2\<rparr>"
    using m by (simp add: UpdateTransformation_owned [OF assms])
  then show ?thesis by blast
qed

lemma sample_refraction:
  "ComputeRefractionAngle sample_externals 90 1 2 = 30"
proof -
  have "sin (pi / 6) = 1 / 2" by (rule sin_30)
  moreover have "- (pi / 2) \<le> pi / 6" "pi / 6 \<le> pi / 2" by simp_all
  ultimately have "arcsin (1 / 2) = pi / 6" by (metis arcsin_sin)
  then show ?thesis by (simp add: sample_externals_def DegreesToRadians_def)
qed

lemma sample_total_reflection:
  "ComputeRefractionAngle sample_externals 90 2 1 = - 1"
  by (simp add: sample_externals_def DegreesToRadians_def)


lemma reflecting_capture_eq:
  "reflecting_capture =
     (BeginPlay sample_world sample_capture)
       \<lparr>m_is_total_reflection := True, WorldTransform := sample_pose\<rparr>"
proof -
  have "modified_wa_transfo sample_externals sample_world 1
          (BeginPlay sample_world sample_capture) sample_pose
        = (sample_pose, (BeginPlay sample_world sample_capture)\<lparr>m_is_total_reflection := True\<rparr>)"
    by (rule modified_wa_transfo_total_reflection)
       (simp_all add: sample_externals_fields sample_begun sample_total_reflection)
  then show ?thesis
    by (simp add: reflecting_capture_def UpdateTransformation_owned [OF sample_begun(1)]
          sample_externals_fields)
qed

text \<open>
  C1. In the refraction branch (\<open>GetTrueType()\<close> is not Mirror, the two indices differ,
  and the refraction angle is not the total-reflection value), the pose handed to
  \<open>ComputeNewTransform\<close> has: as location, the watcher's location rotated about the
  portal's middle point by the rotation whose axis is the normalised normal of the plane
  through the watcher's location, the middle point and the middle point plus the portal's
  forward vector, and whose angle is incidence angle minus refraction angle, in degrees;
  as rotation, that same rotation with pitch and roll set to 0 (its yaw kept), composed
  on the left of the watcher's rotation; the scale unchanged. The total-reflection flag
  is cleared.
\<close>

theorem refraction_rotates_watcher:
  "let portal_mid = MiddlePoint (Actors w owner);
       portal_normal = ActorForwardVector (Actors w owner);
       incidence_angle = ComputeIncidenceAngle ext (Location t) portal_mid portal_normal;
       refraction_angle = ComputeRefractionAngle ext incidence_angle
                            (m_refractive_ind_1 s) (m_refractive_ind_2 s);
       axis = Normalize ext (PlaneNormal ext (Location t) portal_mid
                               (FVector_add portal_mid portal_normal));
       rotation = QuatRotator ext
                    (QuatAxisAngle ext axis (DegreesToRadians (incidence_angle - refraction_angle)));
       pose = \<lparr>Rotation = QuatMul ext (RotatorQuat ext \<lparr>Pitch = 0, Yaw = Yaw rotation, Roll = 0\<rparr>)
                             (Rotation t),
               Location = RotateAboutPoint ext rotation portal_mid (Location t),
               Scale3D = Scale3D t\<rparr>
   in GetTrueType ext s \<noteq> Mirror \<and> m_refractive_ind_1 s \<noteq> m_refractive_ind_2 s
        \<and> refraction_angle \<noteq> - 1 \<longrightarrow>
      modified_wa_transfo ext w owner s t = (pose, s\<lparr>m_is_total_reflection := False\<rparr>)
      \<and> (m_owner s = Some owner \<longrightarrow>
           UpdateTransformation ext w t s =
             s\<lparr>m_is_total_reflection := False,
               WorldTransform :=
                 ComputeNewTransform ext pose owner w (s\<lparr>m_is_total_reflection := False\<rparr>)\<rparr>)"
proof -
  define portal_mid where "portal_mid = MiddlePoint (Actors w owner)"
  define portal_normal where "portal_normal = ActorForwardVector (Actors w owner)"
  define incidence_angle
    where "incidence_angle = ComputeIncidenceAngle ext (Location t) portal_mid portal_normal"
  define refraction_angle
    where "refraction_angle = ComputeRefractionAngle ext incidence_angle
                                (m_refractive_ind_1 s) (m_refractive_ind_2 s)"
  define rotation
    where "rotation = QuatRotator ext
             (QuatAxisAngle ext
                (Normalize ext (PlaneNormal ext (Location t) portal_mid
                                  (FVector_add portal_mid portal_normal)))
                (DegreesToRadians (incidence_angle - refraction_angle)))"
  define pose
    where "pose = \<lparr>Rotation = QuatMul ext (RotatorQuat ext \<lparr>Pitch = 0, Yaw = Yaw rotation, Roll = 0\<rparr>)
                                   (Rotation t),
                    Location = RotateAboutPoint ext rotation portal_mid (Location t),
                    Scale3D = Scale3D t\<rparr>"
  note defs = portal_mid_def portal_normal_def incidence_angle_def refraction_angle_def
    rotation_def pose_def
  have bend: "modified_wa_transfo ext w owner s t = (pose, s\<lparr>m_is_total_reflection := False\<rparr>)"
    if "GetTrueType ext s \<noteq> Mirror" "m_refractive_ind_1 s \<noteq> m_refractive_ind_2 s"
      "refraction_angle \<noteq> - 1"
    using that unfolding defs
    by (simp add: modified_wa_transfo_def Let_def FRotator_yaw_only FTransform_moved)
  have "UpdateTransformation ext w t s =
          s\<lparr>m_is_total_reflection := False,
            WorldTransform :=
              ComputeNewTransform ext pose owner w (s\<lparr>m_is_total_reflection := False\<rparr>)\<rparr>"
    if "GetTrueType ext s \<noteq> Mirror" "m_refractive_ind_1 s \<noteq> m_refractive_ind_2 s"
      "refraction_angle \<noteq> - 1" "m_owner s = Some owner"
    using bend [OF that(1,2,3)] by (simp add: UpdateTransformation_owned [OF that(4)])
  then show ?thesis
    using bend unfolding Let_def defs by blast
qed

text \<open>
  C1, the theorem on the activated sample component with indices 1 and 2, where the
  refraction angle is 30 degrees.
\<close>

theorem refraction_rotates_watcher_witness:
  "GetTrueType sample_externals
     ((BeginPlay sample_world sample_capture)\<lparr>m_refractive_ind_1 := 1, m_refractive_ind_2 := 2\<rparr>)
     \<noteq> Mirror
   \<and> (1::real) \<noteq> 2
   \<and> ComputeRefractionAngle sample_externals 90 1 2 = 30
   \<and> m_owner ((BeginPlay sample_world sample_capture)
                 \<lparr>m_refractive_ind_1 := 1, m_refractive_ind_2 := 2\<rparr>) = Some 1
   \<and> WorldTransform
       (UpdateTransformation sample_externals sample_world sample_pose
          ((BeginPlay sample_world sample_capture)
             \<lparr>m_refractive_ind_1 := 1, m_refractive_ind_2 := 2\<rparr>)) = sample_pose
   \<and> m_is_total_reflection
       (UpdateTransformation sample_externals sample_world sample_pose
          ((BeginPlay sample_world sample_capture)
             \<lparr>m_refractive_ind_1 := 1, m_refractive_ind_2 := 2\<rparr>)) = False"
proof -
  define s where "s = (BeginPlay sample_world sample_capture)
                        \<lparr>m_refractive_ind_1 := 1, m_refractive_ind_2 := 2\<rparr>"
  have f: "m_type s = Portal" "m_owner s = Some 1" "m_refractive_ind_1 s = 1"
    "m_refractive_ind_2 s = 2"
    by (simp_all add: s_def sample_begun)
  have e: "QuatMul sample_externals a b = b"
    "RotateAboutPoint sample_externals r c q = q" for a b r c q
    by (simp_all add: sample_externals_def)
  show ?thesis
    using refraction_rotates_watcher [of sample_world 1 sample_externals sample_pose s]
    unfolding s_def [symmetric]
    by (simp add: Let_def f e sample_externals_fields sample_refraction sample_pose_def)
qed

section \<open>The per-frame update\<close>

lemma CaptureScene_fields:
  "WorldTransform (CaptureScene s) = WorldTransform s"
  "ClipPlaneNormal (CaptureScene s) = ClipPlaneNormal s"
  "ClipPlaneBase (CaptureScene s) = ClipPlaneBase s"
  "TextureTarget (CaptureScene s) = TextureTarget s"
  "CustomProjectionMatrix (CaptureScene s) = CustomProjectionMatrix s"
  "m_render_target (CaptureScene s) = m_render_target s"
  "m_type (CaptureScene s) = m_type s"
  "m_exit_in_front (CaptureScene s) = m_exit_in_front s"
  "Captures (CaptureScene s) =
     Captures s @ [\<lparr>CapturePose = WorldTransform s, CaptureProjection = CustomProjectionMatrix s,
                     CaptureTarget = TextureTarget s, CaptureClipNormal = ClipPlaneNormal s,
                     CaptureClipBase = ClipPlaneBase s\<rparr>]"
  by (simp_all add: CaptureScene_def)


lemma Update_invalid:
  assumes "IsOwnerValid (if (case m_render_target s of None \<Rightarrow> True | Some rt \<Rightarrow> IsNone (FName rt))
        then GenerateDefaultTexture w s else s) = (False, s1)"
  shows "Update ext w t p s = Some s1"
  using assms by (simp add: Update_def Let_def)

lemma Update_unlinked:
  assumes "IsOwnerValid (if (case m_render_target s of None \<Rightarrow> True | Some rt \<Rightarrow> IsNone (FName rt))
        then GenerateDefaultTexture w s else s) = (True, s1)" "m_linked_portal s1 = None"
  shows "Update ext w t p s =
     Some (CaptureScene (s1\<lparr>TextureTarget := m_render_target s1, CustomProjectionMatrix := p\<rparr>))"
  using assms by (simp add: Update_def Let_def)

lemma Update_linked:
  assumes "IsOwnerValid (if (case m_render_target s of None \<Rightarrow> True | Some rt \<Rightarrow> IsNone (FName rt))
        then GenerateDefaultTexture w s else s) = (True, s1)" "m_linked_portal s1 \<noteq> None"
  shows "\<exists>b T n c. Update ext w t p s =
     Some (CaptureScene (s1\<lparr>m_is_total_reflection := b, WorldTransform := T,
             ClipPlaneNormal := n, ClipPlaneBase := c,
             TextureTarget := m_render_target s1, CustomProjectionMatrix := p\<rparr>))"
proof -
  obtain owner where o: "m_owner s1 = Some owner" using IsOwnerValid_owner [OF assms(1)] by blast
  obtain linked where l: "m_linked_portal s1 = Some linked" using assms(2) by blast
  obtain b T where u: "UpdateTransformation ext w t s1 = s1\<lparr>m_is_total_reflection := b, WorldTransform := T\<rparr>"
    using UpdateTransformation_shape [OF o] by blast
  define u where "u = s1\<lparr>m_is_total_reflection := b, WorldTransform := T\<rparr>"
  have uo: "m_owner u = Some owner" and ul: "m_linked_portal u = Some linked"
    and ur: "m_render_target u = m_render_target s1"
    using o l by (simp_all add: u_def)
  have "\<exists>target. (if getType ext u = Portal then m_linked_portal u else m_owner u) = Some target"
    using uo ul by simp
  then obtain target
    where tg: "(if getType ext u = Portal then m_linked_portal u else m_owner u) = Some target"
    by blast
  have "\<exists>n c. UpdateNearClipPlane ext w u = Some (u\<lparr>ClipPlaneNormal := n, ClipPlaneBase := c\<rparr>)"
    by (simp only: UpdateNearClipPlane_owned [OF uo] tg option.case) blast
  then obtain n c where "UpdateNearClipPlane ext w u = Some (u\<lparr>ClipPlaneNormal := n, ClipPlaneBase := c\<rparr>)"
    by blast
  then have "Update ext w t p s =
     Some (CaptureScene (u\<lparr>ClipPlaneNormal := n, ClipPlaneBase := c,
             TextureTarget := m_render_target s1, CustomProjectionMatrix := p\<rparr>))"
    using assms u by (simp add: Update_def Let_def u_def)
  then show ?thesis unfolding u_def by auto
qed


lemma Update_when_invalid:
  assumes "m_owner s = None" "Owner s = OtherActor"
  shows "\<exists>s'. Update ext w t p s = Some s'
         \<and> WorldTransform s' = WorldTransform s
         \<and> ClipPlaneNormal s' = ClipPlaneNormal s \<and> ClipPlaneBase s' = ClipPlaneBase s
         \<and> Captures s' = Captures s
         \<and> TextureTarget s' = TextureTarget s
         \<and> CustomProjectionMatrix s' = CustomProjectionMatrix s
         \<and> m_owner s' = None \<and> Owner s' = OtherActor
         \<and> ((\<exists>rt. m_render_target s = Some rt \<and> \<not> IsNone (FName rt)) \<longrightarrow> s' = s)
         \<and> (\<not> (\<exists>rt. m_render_target s = Some rt \<and> \<not> IsNone (FName rt)) \<longrightarrow>
              s' = GenerateDefaultTexture w s)"
proof -
  define s0 where "s0 = (if (case m_render_target s of None \<Rightarrow> True | Some rt \<Rightarrow> IsNone (FName rt))
        then GenerateDefaultTexture w s else s)"
  have s0: "WorldTransform s0 = WorldTransform s" "ClipPlaneNormal s0 = ClipPlaneNormal s"
    "ClipPlaneBase s0 = ClipPlaneBase s" "Captures s0 = Captures s"
    "TextureTarget s0 = TextureTarget s" "CustomProjectionMatrix s0 = CustomProjectionMatrix s"
    "m_owner s0 = m_owner s" "Owner s0 = Owner s"
    by (simp_all add: s0_def GenerateDefaultTexture_fields)
  have same: "s0 = s" if "\<exists>rt. m_render_target s = Some rt \<and> \<not> IsNone (FName rt)"
    using that by (auto simp: s0_def)
  have regenerated: "s0 = GenerateDefaultTexture w s"
    if "\<not> (\<exists>rt. m_render_target s = Some rt \<and> \<not> IsNone (FName rt))"
    using that by (auto simp: s0_def split: option.splits)
  have "IsOwnerValid s0 = (False, s0)"
    using assms by (simp add: IsOwnerValid_def SetOwnerIfAvailable_def s0)
  then have "Update ext w t p s = Some s0" unfolding s0_def by (rule Update_invalid)
  then show ?thesis using s0 same regenerated assms by simp
qed

lemma Update_when_unlinked:
  assumes "m_owner s \<noteq> None \<or> Owner s \<noteq> OtherActor" "m_linked_portal s = None"
  shows "\<exists>s'. Update ext w t p s = Some s'
         \<and> WorldTransform s' = WorldTransform s
         \<and> ClipPlaneNormal s' = ClipPlaneNormal s \<and> ClipPlaneBase s' = ClipPlaneBase s
         \<and> TextureTarget s' = m_render_target s'
         \<and> CustomProjectionMatrix s' = p
         \<and> Captures s' =
             Captures s @ [\<lparr>CapturePose = WorldTransform s, CaptureProjection = p,
                             CaptureTarget = m_render_target s',
                             CaptureClipNormal = ClipPlaneNormal s,
                             CaptureClipBase = ClipPlaneBase s\<rparr>]"
proof -
  define s0 where "s0 = (if (case m_render_target s of None \<Rightarrow> True | Some rt \<Rightarrow> IsNone (FName rt))
        then GenerateDefaultTexture w s else s)"
  have s0: "WorldTransform s0 = WorldTransform s" "ClipPlaneNormal s0 = ClipPlaneNormal s"
    "ClipPlaneBase s0 = ClipPlaneBase s" "Captures s0 = Captures s"
    "m_owner s0 = m_owner s" "Owner s0 = Owner s" "m_linked_portal s0 = m_linked_portal s"
    by (simp_all add: s0_def GenerateDefaultTexture_fields)
  obtain owner where v: "IsOwnerValid s0 = (True, s0\<lparr>m_owner := Some owner\<rparr>)"
    using assms(1) s0(5,6) by (cases s0 rule: IsOwnerValid_cases) auto
  define s1 where "s1 = s0\<lparr>m_owner := Some owner\<rparr>"
  have l: "m_linked_portal s1 = None" using assms(2) by (simp add: s1_def s0)
  have "Update ext w t p s =
    Some (CaptureScene (s1\<lparr>TextureTarget := m_render_target s1, CustomProjectionMatrix := p\<rparr>))"
    using v l unfolding s0_def s1_def by (rule Update_unlinked)
  then show ?thesis by (simp add: CaptureScene_fields s1_def s0)
qed

lemma Update_linked_exact:
  assumes "IsOwnerValid (if (case m_render_target s of None \<Rightarrow> True | Some rt \<Rightarrow> IsNone (FName rt))
        then GenerateDefaultTexture w s else s) = (True, s1)" "m_linked_portal s1 \<noteq> None"
  shows "\<exists>n c. Update ext w t p s =
     Some (CaptureScene ((UpdateTransformation ext w t s1)\<lparr>
             ClipPlaneNormal := n, ClipPlaneBase := c,
             TextureTarget := m_render_target s1, CustomProjectionMatrix := p\<rparr>))"
proof -
  obtain owner where o: "m_owner s1 = Some owner" using IsOwnerValid_owner [OF assms(1)] by blast
  obtain linked where l: "m_linked_portal s1 = Some linked" using assms(2) by blast
  obtain b T where u: "UpdateTransformation ext w t s1 = s1\<lparr>m_is_total_reflection := b, WorldTransform := T\<rparr>"
    using UpdateTransformation_shape [OF o] by blast
  define u where "u = UpdateTransformation ext w t s1"
  have uo: "m_owner u = Some owner" and ul: "m_linked_portal u = Some linked"
    and ur: "m_render_target u = m_render_target s1"
    using o l by (simp_all add: u_def u)
  have "\<exists>target. (if getType ext u = Portal then m_linked_portal u else m_owner u) = Some target"
    using uo ul by simp
  then obtain target
    where tg: "(if getType ext u = Portal then m_linked_portal u else m_owner u) = Some target"
    by blast
  have "\<exists>n c. UpdateNearClipPlane ext w u = Some (u\<lparr>ClipPlaneNormal := n, ClipPlaneBase := c\<rparr>)"
    by (simp only: UpdateNearClipPlane_owned [OF uo] tg option.case) blast
  then obtain n c where "UpdateNearClipPlane ext w u = Some (u\<lparr>ClipPlaneNormal := n, ClipPlaneBase := c\<rparr>)"
    by blast
  then have "Update ext w t p s =
     Some (CaptureScene (u\<lparr>ClipPlaneNormal := n, ClipPlaneBase := c,
             TextureTarget := m_render_target s1, CustomProjectionMatrix := p\<rparr>))"
    using assms ur by (simp add: Update_def Let_def u_def [symmetric])
  then show ?thesis unfolding u_def by blast
qed

lemma Update_linked_flag:
  assumes "m_render_target s = Some rt" "\<not> IsNone (FName rt)"
    and "m_owner s = Some owner" "m_linked_portal s \<noteq> None"
  shows "map_option m_is_total_reflection (Update ext w t p s)
           = Some (m_is_total_reflection (UpdateTransformation ext w t s))"
    and "map_option WorldTransform (Update ext w t p s)
           = Some (WorldTransform (UpdateTransformation ext w t s))"
proof -
  have "IsOwnerValid (if (case m_render_target s of None \<Rightarrow> True | Some rt \<Rightarrow> IsNone (FName rt))
        then GenerateDefaultTexture w s else s) = (True, s)"
    using assms(1,2,3) by (simp add: IsOwnerValid_owned)
  then obtain n c where "Update ext w t p s =
     Some (CaptureScene ((UpdateTransformation ext w t s)\<lparr>
             ClipPlaneNormal := n, ClipPlaneBase := c,
             TextureTarget := m_render_target s, CustomProjectionMatrix := p\<rparr>))"
    using Update_linked_exact assms(4) by blast
  then show "map_option m_is_total_reflection (Update ext w t p s)
           = Some (m_is_total_reflection (UpdateTransformation ext w t s))"
    and "map_option WorldTransform (Update ext w t p s)
           = Some (WorldTransform (UpdateTransformation ext w t s))"
    by (simp_all add: CaptureScene_def)
qed

lemma BeginPlay_render_target:
  "\<exists>rt. m_render_target (BeginPlay w s) = Some rt \<and> FName rt = ''Default texture''"
  by (simp add: BeginPlay_def Let_def snd_SetOwnerIfAvailable GenerateDefaultTexture_def NewObject_def)


lemma UpdateTransformation_plain_sample:
  assumes "m_owner s = Some 1"
    and "m_type s = Mirror \<or> m_refractive_ind_1 s = m_refractive_ind_2 s"
  shows "UpdateTransformation sample_externals sample_world sample_pose s
         = s\<lparr>WorldTransform := sample_pose\<rparr>"
proof -
  have "modified_wa_transfo sample_externals sample_world 1 s sample_pose = (sample_pose, s)"
    using assms(2) by (intro modified_wa_transfo_plain) (simp add: sample_externals_fields)
  then show ?thesis
    by (simp add: UpdateTransformation_owned [OF assms(1)] sample_externals_fields)
qed

lemma Update_plain_sample:
  assumes "m_render_target s = Some rt" "FName rt = ''Default texture''"
    and "m_owner s = Some 1" "m_linked_portal s = Some 1"
    and "m_type s = Mirror \<or> m_refractive_ind_1 s = m_refractive_ind_2 s"
  shows "map_option m_is_total_reflection (Update sample_externals sample_world sample_pose [] s)
           = Some (m_is_total_reflection s)"
    and "map_option WorldTransform (Update sample_externals sample_world sample_pose [] s)
           = Some sample_pose"
proof -
  have n: "\<not> IsNone (FName rt)" using assms(2) by (simp add: IsNone_def)
  have l: "m_linked_portal s \<noteq> None" using assms(4) by simp
  show "map_option m_is_total_reflection (Update sample_externals sample_world sample_pose [] s)
           = Some (m_is_total_reflection s)"
    by (simp add: Update_linked_flag(1) [OF assms(1) n assms(3) l]
          UpdateTransformation_plain_sample [OF assms(3,5)])
  show "map_option WorldTransform (Update sample_externals sample_world sample_pose [] s)
           = Some sample_pose"
    by (simp add: Update_linked_flag(2) [OF assms(1) n assms(3) l]
          UpdateTransformation_plain_sample [OF assms(3,5)])
qed

lemma total_reflection_frame:
  "\<exists>s1 rt. Update sample_externals sample_world sample_pose [] (BeginPlay sample_world sample_capture)
            = Some s1
     \<and> m_is_total_reflection s1 \<and> m_owner s1 = Some 1 \<and> m_linked_portal s1 = Some 1
     \<and> m_type s1 = Portal \<and> m_refractive_ind_1 s1 = 2 \<and> m_refractive_ind_2 s1 = 1
     \<and> m_render_target s1 = Some rt \<and> FName rt = ''Default texture''"
proof -
  define b where "b = BeginPlay sample_world sample_capture"
  obtain rt where rt: "m_render_target b = Some rt" "FName rt = ''Default texture''"
    using BeginPlay_render_target unfolding b_def by blast
  have "IsOwnerValid (if (case m_render_target b of None \<Rightarrow> True | Some rt \<Rightarrow> IsNone (FName rt))
        then GenerateDefaultTexture sample_world b else b) = (True, b)"
    using rt by (simp add: IsNone_def IsOwnerValid_owned [OF sample_begun(1)] b_def)
  moreover have "m_linked_portal b \<noteq> None" by (simp add: b_def sample_begun)
  ultimately obtain n c where "Update sample_externals sample_world sample_pose [] b =
     Some (CaptureScene ((UpdateTransformation sample_externals sample_world sample_pose b)\<lparr>
             ClipPlaneNormal := n, ClipPlaneBase := c,
             TextureTarget := m_render_target b, CustomProjectionMatrix := []\<rparr>))"
    using Update_linked_exact by blast
  then have "Update sample_externals sample_world sample_pose [] b =
     Some (CaptureScene (reflecting_capture\<lparr>
             ClipPlaneNormal := n, ClipPlaneBase := c,
             TextureTarget := m_render_target b, CustomProjectionMatrix := []\<rparr>))"
    by (simp add: reflecting_capture_def b_def)
  then show ?thesis
    unfolding b_def [symmetric]
    using rt by (simp add: CaptureScene_def reflecting_capture_eq b_def [symmetric])
       (simp add: b_def sample_begun)
qed

text \<open>
  C2, on frames that take no refraction. The activated sample component (type Portal,
  indices 2 and 1, grazing incidence) has a first \<open>Update\<close> that is a total-reflection
  frame. It is then reconfigured as a Mirror by \<open>Init\<close>, or has its first index set to 1
  so that the two indices are equal. The next \<open>Update\<close> hands the watcher's pose on
  unchanged, and leaves the total-reflection flag set.
\<close>

theorem flag_survives_plain_frame:
  "map_option m_is_total_reflection
     (Update sample_externals sample_world sample_pose [] (BeginPlay sample_world sample_capture))
     = Some True
   \<and> map_option m_is_total_reflection
       (Option.bind
          (Update sample_externals sample_world sample_pose [] (BeginPlay sample_world sample_capture))
          (\<lambda>s. Update sample_externals sample_world sample_pose [] (Init Mirror (Some 1) False 1 s)))
     = Some True
   \<and> map_option WorldTransform
       (Option.bind
          (Update sample_externals sample_world sample_pose [] (BeginPlay sample_world sample_capture))
          (\<lambda>s. Update sample_externals sample_world sample_pose [] (Init Mirror (Some 1) False 1 s)))
     = Some sample_pose
   \<and> map_option m_is_total_reflection
       (Option.bind
          (Update sample_externals sample_world sample_pose [] (BeginPlay sample_world sample_capture))
          (\<lambda>s. Update sample_externals sample_world sample_pose [] (s\<lparr>m_refractive_ind_1 := 1\<rparr>)))
     = Some True
   \<and> map_option WorldTransform
       (Option.bind
          (Update sample_externals sample_world sample_pose [] (BeginPlay sample_world sample_capture))
          (\<lambda>s. Update sample_externals sample_world sample_pose [] (s\<lparr>m_refractive_ind_1 := 1\<rparr>)))
     = Some sample_pose"
proof -
  obtain s1 rt where s1:
    "Update sample_externals sample_world sample_pose [] (BeginPlay sample_world sample_capture) = Some s1"
    "m_is_total_reflection s1" "m_owner s1 = Some 1" "m_linked_portal s1 = Some 1"
    "m_refractive_ind_2 s1 = 1" "m_render_target s1 = Some rt" "FName rt = ''Default texture''"
    using total_reflection_frame by blast
  define m where "m = Init Mirror (Some 1) False 1 s1"
  define e where "e = s1\<lparr>m_refractive_ind_1 := 1\<rparr>"
  have m: "m_render_target m = Some rt" "m_owner m = Some 1" "m_linked_portal m = Some 1"
    "m_type m = Mirror \<or> m_refractive_ind_1 m = m_refractive_ind_2 m" "m_is_total_reflection m"
    using s1 by (simp_all add: m_def Init_def)
  have e: "m_render_target e = Some rt" "m_owner e = Some 1" "m_linked_portal e = Some 1"
    "m_type e = Mirror \<or> m_refractive_ind_1 e = m_refractive_ind_2 e" "m_is_total_reflection e"
    using s1 by (simp_all add: e_def)
  show ?thesis
    using Update_plain_sample [OF m(1) s1(7) m(2,3,4)] Update_plain_sample [OF e(1) s1(7) e(2,3,4)]
      m(5) e(5) s1(1,2)
    by (simp add: m_def e_def)
qed

text \<open>
  C3, on two frames. After a total-reflection frame the sample component is reconfigured
  as a Mirror with \<open>Init\<close>; the next \<open>Update\<close> leaves the flag set. The same component
  reconfigured the same way without the earlier total-reflection frame has the flag
  clear after the same \<open>Update\<close>: on such a frame the flag is the flag of the frame
  before.
\<close>

theorem flag_survives_reconfiguration:
  "map_option m_is_total_reflection
     (Update sample_externals sample_world sample_pose [] (BeginPlay sample_world sample_capture))
     = Some True
   \<and> map_option m_is_total_reflection
       (Option.bind
          (Update sample_externals sample_world sample_pose [] (BeginPlay sample_world sample_capture))
          (\<lambda>s. Update sample_externals sample_world sample_pose [] (Init Mirror (Some 1) False 1 s)))
     = Some True
   \<and> map_option m_is_total_reflection
       (Update sample_externals sample_world sample_pose []
          (Init Mirror (Some 1) False 1 (BeginPlay sample_world sample_capture)))
     = Some False"
proof -
  obtain s1 rt where s1:
    "Update sample_externals sample_world sample_pose [] (BeginPlay sample_world sample_capture) = Some s1"
    "m_is_total_reflection s1" "m_owner s1 = Some 1" "m_linked_portal s1 = Some 1"
    "m_render_target s1 = Some rt" "FName rt = ''Default texture''"
    using total_reflection_frame by blast
  define m where "m = Init Mirror (Some 1) False 1 s1"
  have m: "m_render_target m = Some rt" "m_owner m = Some 1" "m_linked_portal m = Some 1"
    "m_type m = Mirror \<or> m_refractive_ind_1 m = m_refractive_ind_2 m" "m_is_total_reflection m"
    using s1 by (simp_all add: m_def Init_def)
  obtain rt0 where rt0: "m_render_target (BeginPlay sample_world sample_capture) = Some rt0"
    "FName rt0 = ''Default texture''"
    using BeginPlay_render_target by blast
  define f where "f = Init Mirror (Some 1) False 1 (BeginPlay sample_world sample_capture)"
  have f: "m_render_target f = Some rt0" "m_owner f = Some 1" "m_linked_portal f = Some 1"
    "m_type f = Mirror \<or> m_refractive_ind_1 f = m_refractive_ind_2 f" "\<not> m_is_total_reflection f"
    using rt0 by (simp_all add: f_def Init_def sample_begun)
  show ?thesis
    using Update_plain_sample(1) [OF m(1) s1(6) m(2,3,4)]
      Update_plain_sample(1) [OF f(1) rt0(2) f(2,3,4)] m(5) f(5) s1(1,2)
    by (simp add: m_def f_def)
qed

text \<open>
  C8, as the code has it. When the owner is unresolved (\<open>m_owner\<close> null and the owning
  actor not a portal), \<open>Update\<close> sets no pose, recomputes no clip plane, publishes no
  target, stores no projection matrix and performs no capture; the owner stays
  unresolved, to be looked up again by the next call; when the default render target
  exists the component is left exactly as it was, and otherwise it is exactly the
  component after \<open>GenerateDefaultTexture\<close>. When the owner is resolved and only
  the linked portal is null, pose and clip plane are left as they were, but the render
  target is published, the projection matrix is stored and one capture is performed.
\<close>

theorem Update_unresolved:
  "(m_owner s = None \<and> Owner s = OtherActor \<longrightarrow>
      (\<exists>s'. Update ext w t p s = Some s'
         \<and> WorldTransform s' = WorldTransform s
         \<and> ClipPlaneNormal s' = ClipPlaneNormal s \<and> ClipPlaneBase s' = ClipPlaneBase s
         \<and> Captures s' = Captures s
         \<and> TextureTarget s' = TextureTarget s
         \<and> CustomProjectionMatrix s' = CustomProjectionMatrix s
         \<and> m_owner s' = None \<and> Owner s' = OtherActor
         \<and> ((\<exists>rt. m_render_target s = Some rt \<and> \<not> IsNone (FName rt)) \<longrightarrow> s' = s)
         \<and> (\<not> (\<exists>rt. m_render_target s = Some rt \<and> \<not> IsNone (FName rt)) \<longrightarrow>
              s' = GenerateDefaultTexture w s)))
   \<and> ((m_owner s \<noteq> None \<or> Owner s \<noteq> OtherActor) \<and> m_linked_portal s = None \<longrightarrow>
      (\<exists>s'. Update ext w t p s = Some s'
         \<and> WorldTransform s' = WorldTransform s
         \<and> ClipPlaneNormal s' = ClipPlaneNormal s \<and> ClipPlaneBase s' = ClipPlaneBase s
         \<and> TextureTarget s' = m_render_target s'
         \<and> CustomProjectionMatrix s' = p
         \<and> Captures s' =
             Captures s @ [\<lparr>CapturePose = WorldTransform s, CaptureProjection = p,
                             CaptureTarget = m_render_target s',
                             CaptureClipNormal = ClipPlaneNormal s,
                             CaptureClipBase = ClipPlaneBase s\<rparr>]))"
  using Update_when_invalid [of s ext w t p] Update_when_unlinked [of s ext w t p] by blast

lemma sample_unlinked:
  "m_owner (Init Portal None False 1 (BeginPlay sample_world sample_capture)) = Some 1"
  "m_linked_portal (Init Portal None False 1 (BeginPlay sample_world sample_capture)) = None"
  "Captures (Init Portal None False 1 (BeginPlay sample_world sample_capture)) = []"
  by (simp_all add: Init_def sample_begun BeginPlay_def Let_def snd_SetOwnerIfAvailable
        GenerateDefaultTexture_fields sample_capture_def)

text \<open>
  C8, the theorem on the sample component owned by an actor that is not a portal (no
  capture), and on the activated sample component reconfigured without a linked portal
  (one capture).
\<close>

theorem Update_unresolved_witness:
  "m_owner (sample_capture\<lparr>Owner := OtherActor\<rparr>) = None
   \<and> Owner (sample_capture\<lparr>Owner := OtherActor\<rparr>) = OtherActor
   \<and> map_option Captures
        (Update sample_externals sample_world sample_pose [] (sample_capture\<lparr>Owner := OtherActor\<rparr>))
       = Some []
   \<and> m_owner (Init Portal None False 1 (BeginPlay sample_world sample_capture)) \<noteq> None
   \<and> m_linked_portal (Init Portal None False 1 (BeginPlay sample_world sample_capture)) = None
   \<and> map_option (length \<circ> Captures)
        (Update sample_externals sample_world sample_pose []
           (Init Portal None False 1 (BeginPlay sample_world sample_capture)))
       = Some 1"
proof -
  have a: "m_owner (sample_capture\<lparr>Owner := OtherActor\<rparr>) = None"
    "Owner (sample_capture\<lparr>Owner := OtherActor\<rparr>) = OtherActor"
    "Captures (sample_capture\<lparr>Owner := OtherActor\<rparr>) = []"
    by (simp_all add: sample_capture_def)
  show ?thesis
    using Update_unresolved [of "sample_capture\<lparr>Owner := OtherActor\<rparr>" sample_externals sample_world sample_pose "[]"]
      Update_unresolved [of "Init Portal None False 1 (BeginPlay sample_world sample_capture)"
             sample_externals sample_world sample_pose "[]"]
    by (auto simp: a sample_unlinked)
qed

text \<open>
  C8 as stated fails when only the linked portal is unresolved: on the activated sample
  component, reconfigured by \<open>Init\<close> without a linked portal, \<open>Update\<close> performs a
  capture.
\<close>

theorem Update_captures_without_linked_portal:
  "m_owner (Init Portal None False 1 (BeginPlay sample_world sample_capture)) = Some 1
   \<and> m_linked_portal (Init Portal None False 1 (BeginPlay sample_world sample_capture)) = None
   \<and> Captures (Init Portal None False 1 (BeginPlay sample_world sample_capture)) = []
   \<and> map_option (length \<circ> Captures)
        (Update sample_externals sample_world sample_pose []
           (Init Portal None False 1 (BeginPlay sample_world sample_capture)))
       = Some 1"
  using Update_when_unlinked [of "Init Portal None False 1 (BeginPlay sample_world sample_capture)"
          sample_externals sample_world sample_pose "[]"]
  by (auto simp: sample_unlinked)

lemma UpdateRenderTarget_fields:
  "m_type (UpdateRenderTarget w s) = m_type s"
  "m_exit_in_front (UpdateRenderTarget w s) = m_exit_in_front s"
  by (simp_all add: UpdateRenderTarget_def Let_def)

lemma Update_configuration:
  "\<exists>s'. Update ext w t p s = Some s' \<and> m_type s' = m_type s
        \<and> m_exit_in_front s' = m_exit_in_front s"
proof -
  define s0 where "s0 = (if (case m_render_target s of None \<Rightarrow> True | Some rt \<Rightarrow> IsNone (FName rt))
        then GenerateDefaultTexture w s else s)"
  have s0: "m_type s0 = m_type s" "m_exit_in_front s0 = m_exit_in_front s"
    by (simp_all add: s0_def GenerateDefaultTexture_fields)
  show ?thesis
  proof (cases s0 rule: IsOwnerValid_cases)
    case invalid
    then have "Update ext w t p s = Some s0" unfolding s0_def by (intro Update_invalid)
    then show ?thesis using s0 by simp
  next
    case (valid owner)
    define s1 where "s1 = s0\<lparr>m_owner := Some owner\<rparr>"
    have s1: "m_type s1 = m_type s" "m_exit_in_front s1 = m_exit_in_front s"
      by (simp_all add: s1_def s0)
    have v: "IsOwnerValid (if (case m_render_target s of None \<Rightarrow> True | Some rt \<Rightarrow> IsNone (FName rt))
        then GenerateDefaultTexture w s else s) = (True, s1)"
      using valid by (simp add: s0_def s1_def)
    show ?thesis
    proof (cases "m_linked_portal s1 = None")
      case True
      show ?thesis
        unfolding Update_unlinked [OF v True] by (simp add: CaptureScene_fields s1)
    next
      case False
      obtain b T n c where "Update ext w t p s =
         Some (CaptureScene (s1\<lparr>m_is_total_reflection := b, WorldTransform := T,
             ClipPlaneNormal := n, ClipPlaneBase := c,
             TextureTarget := m_render_target s1, CustomProjectionMatrix := p\<rparr>))"
        using Update_linked [OF v False] by blast
      then show ?thesis by (simp add: CaptureScene_fields s1)
    qed
  qed
qed

lemma call_configuration:
  "\<not> is_Init c \<Longrightarrow>
   \<exists>s'. call ext c s = Some s' \<and> m_type s' = m_type s \<and> m_exit_in_front s' = m_exit_in_front s"
  by (cases c) (simp_all add: Update_configuration UpdateRenderTarget_fields)

lemma calls_configuration:
  "frames_only cs \<Longrightarrow>
   \<exists>s'. calls ext cs s = Some s' \<and> m_type s' = m_type s \<and> m_exit_in_front s' = m_exit_in_front s"
proof (induction cs arbitrary: s)
  case Nil
  show ?case by simp
next
  case (Cons c cs)
  then have "\<not> is_Init c" "frames_only cs" by simp_all
  obtain s1 where c: "call ext c s = Some s1" "m_type s1 = m_type s"
    "m_exit_in_front s1 = m_exit_in_front s"
    using call_configuration [OF \<open>\<not> is_Init c\<close>] by blast
  obtain s' where "calls ext cs s1 = Some s'" "m_type s' = m_type s1"
    "m_exit_in_front s' = m_exit_in_front s1"
    using Cons.IH [OF \<open>frames_only cs\<close>] by blast
  then show ?case using c by simp
qed

lemma call_returns: "\<exists>s'. call ext c s = Some s'"
proof (cases "is_Init c")
  case True
  then show ?thesis by (cases c) simp_all
next
  case False
  then show ?thesis using call_configuration by blast
qed

lemma calls_returns: "\<exists>s'. calls ext cs s = Some s'"
proof (induction cs arbitrary: s)
  case Nil
  show ?case by simp
next
  case (Cons c cs)
  obtain s1 where "call ext c s = Some s1" using call_returns by blast
  then show ?case using Cons.IH [of s1] by simp
qed

lemma calls_append:
  "calls ext before s = Some s1 \<Longrightarrow> calls ext (before @ after) s = calls ext after s1"
  by (induction before arbitrary: s) (auto split: option.splits)

lemma calls_after_Init:
  assumes "frames_only after"
  shows "\<exists>s'. calls ext (before @ CallInit type linked exit_in_front weight # after) s = Some s'
           \<and> m_type s' = type \<and> m_exit_in_front s' = exit_in_front"
proof -
  obtain s1 where b: "calls ext before s = Some s1" using calls_returns by blast
  obtain s' where "calls ext after (Init type linked exit_in_front weight s1) = Some s'"
    "m_type s' = m_type (Init type linked exit_in_front weight s1)"
    "m_exit_in_front s' = m_exit_in_front (Init type linked exit_in_front weight s1)"
    using calls_configuration [OF assms] by blast
  then show ?thesis by (simp add: calls_append [OF b] Init_fields)
qed

text \<open>
  C10, as the code has it. After \<open>Init\<close> and activation, and after any further run of
  \<open>Update\<close> and \<open>UpdateRenderTarget\<close> calls in which \<open>Init\<close> is not called again, the
  camera type is the configured one, and if it is not Portal then \<open>m_exit_in_front\<close> is
  false whatever value was given to \<open>Init\<close>; for type Portal it is the value given. A
  later call of \<open>Init\<close> stores the type and the flag it is given without any check, and
  they stay as given through the frames that follow it. No run fails.
\<close>

theorem exit_in_front_until_Init:
  "(frames_only cs \<longrightarrow>
      (\<exists>s'. calls ext cs (BeginPlay w (Init type linked exit_in_front weight s)) = Some s'
         \<and> m_type s' = type
         \<and> (type \<noteq> Portal \<longrightarrow> \<not> m_exit_in_front s')
         \<and> (type = Portal \<longrightarrow> m_exit_in_front s' = exit_in_front)))
   \<and> (frames_only after \<longrightarrow>
      (\<exists>s'. calls ext (before @ CallInit type' linked' exit_in_front' weight' # after)
               (BeginPlay w (Init type linked exit_in_front weight s)) = Some s'
         \<and> m_type s' = type' \<and> m_exit_in_front s' = exit_in_front'))"
proof (intro conjI impI)
  assume "frames_only cs"
  then obtain s' where "calls ext cs (BeginPlay w (Init type linked exit_in_front weight s)) = Some s'"
    "m_type s' = m_type (BeginPlay w (Init type linked exit_in_front weight s))"
    "m_exit_in_front s' = m_exit_in_front (BeginPlay w (Init type linked exit_in_front weight s))"
    using calls_configuration by blast
  then show "\<exists>s'. calls ext cs (BeginPlay w (Init type linked exit_in_front weight s)) = Some s'
         \<and> m_type s' = type
         \<and> (type \<noteq> Portal \<longrightarrow> \<not> m_exit_in_front s')
         \<and> (type = Portal \<longrightarrow> m_exit_in_front s' = exit_in_front)"
    by (simp add: BeginPlay_fields Init_fields)
next
  assume "frames_only after"
  then show "\<exists>s'. calls ext (before @ CallInit type' linked' exit_in_front' weight' # after)
               (BeginPlay w (Init type linked exit_in_front weight s)) = Some s'
         \<and> m_type s' = type' \<and> m_exit_in_front s' = exit_in_front'"
    by (rule calls_after_Init)
qed

text \<open>
  C10, the theorem for a Mirror configured with exit in front: right after activation
  and after one \<open>Update\<close> and one \<open>UpdateRenderTarget\<close> the flag is false; for a Portal
  reconfigured by a later \<open>Init\<close> as a Portal with exit in front, the flag is true after
  the next \<open>Update\<close>.
\<close>

theorem exit_in_front_until_Init_witness:
  "frames_only [CallUpdate sample_world sample_pose [], CallUpdateRenderTarget sample_world]
   \<and> Mirror \<noteq> Portal
   \<and> map_option m_exit_in_front
        (calls sample_externals
           [CallUpdate sample_world sample_pose [], CallUpdateRenderTarget sample_world]
           (BeginPlay sample_world (Init Mirror None True 1 sample_capture)))
       = Some False
   \<and> frames_only [CallUpdate sample_world sample_pose []]
   \<and> map_option m_exit_in_front
        (calls sample_externals
           ([CallUpdateRenderTarget sample_world]
              @ CallInit Portal None True 1 # [CallUpdate sample_world sample_pose []])
           (BeginPlay sample_world (Init Mirror None True 1 sample_capture)))
       = Some True"
  using exit_in_front_until_Init
          [of "[CallUpdate sample_world sample_pose [], CallUpdateRenderTarget sample_world]"
              sample_externals sample_world Mirror None True 1 sample_capture
              "[CallUpdate sample_world sample_pose []]"
              "[CallUpdateRenderTarget sample_world]" Portal None True 1]
  by auto

text \<open>
  C10 as stated fails when \<open>Init\<close> is called after activation: the activated sample
  component, reconfigured by \<open>Init\<close> as a Mirror with exit in front, goes through the
  next \<open>Update\<close> as a Mirror whose \<open>m_exit_in_front\<close> is true.
\<close>

theorem Mirror_with_exit_in_front:
  "map_option m_type
     (calls sample_externals
        [CallInit Mirror None True 1, CallUpdate sample_world sample_pose []]
        (BeginPlay sample_world (Init Mirror None True 1 sample_capture)))
     = Some Mirror
   \<and> map_option m_exit_in_front
     (calls sample_externals
        [CallInit Mirror None True 1, CallUpdate sample_world sample_pose []]
        (BeginPlay sample_world (Init Mirror None True 1 sample_capture)))
     = Some True"
  using calls_after_Init
          [of "[CallUpdate sample_world sample_pose []]" sample_externals "[]" Mirror None True 1
              "BeginPlay sample_world (Init Mirror None True 1 sample_capture)"]
  by auto

end
